theory Spec2Isabelle
  imports Main
begin

section \<open>Python values\<close>

text \<open>
  A Python \<open>str\<close> is a \<open>string\<close>; each \<open>char\<close> stands for one code point below 256.
  The values that occur are \<open>None\<close>, booleans, integers, strings, lists and dicts: the
  values of a parsed JSON document (\<open>response.json()\<close>) and of a module option. A dict
  is the list of its items, in iteration order.
\<close>

datatype py =
    PNone
  | PBool bool
  | PInt int
  | PStr string
  | PList "py list"
  | PDict "(string \<times> py) list"

text \<open>
  The exceptions that the modelled code raises by itself. A function that can raise
  returns \<open>py_error + 'a\<close>, with \<open>Inl\<close> the exception.
\<close>

datatype py_error =
    KeyError string
  | AttributeError
  | TypeError
  | JSONDecodeError
  | OSError

text \<open>Truth value (\<open>if zone:\<close>, \<open>not v.get("value")\<close>).\<close>

fun py_truthy :: "py \<Rightarrow> bool" where
  "py_truthy PNone = False"
| "py_truthy (PBool b) = b"
| "py_truthy (PInt n) = (n \<noteq> 0)"
| "py_truthy (PStr s) = (s \<noteq> [])"
| "py_truthy (PList xs) = (xs \<noteq> [])"
| "py_truthy (PDict kvs) = (kvs \<noteq> [])"

text \<open>\<open>x.get(k)\<close> and \<open>x.get(k, d)\<close>: only a dict has the method.\<close>

fun py_get_default :: "py \<Rightarrow> string \<Rightarrow> py \<Rightarrow> py_error + py" where
  "py_get_default (PDict kvs) k d = Inr (case map_of kvs k of None \<Rightarrow> d | Some v \<Rightarrow> v)"
| "py_get_default x k d = Inl AttributeError"

definition py_get :: "py \<Rightarrow> string \<Rightarrow> py_error + py" where
  "py_get x k = py_get_default x k PNone"

text \<open>\<open>x[k]\<close> with a string key.\<close>

fun py_item :: "py \<Rightarrow> string \<Rightarrow> py_error + py" where
  "py_item (PDict kvs) k = (case map_of kvs k of None \<Rightarrow> Inl (KeyError k) | Some v \<Rightarrow> Inr v)"
| "py_item x k = Inl TypeError"

text \<open>\<open>len(x)\<close>, and the items that \<open>for y in x\<close> and \<open>xs.extend(x)\<close> run over.\<close>

fun py_len :: "py \<Rightarrow> py_error + nat" where
  "py_len (PList xs) = Inr (length xs)"
| "py_len (PDict kvs) = Inr (length kvs)"
| "py_len (PStr s) = Inr (length s)"
| "py_len x = Inl TypeError"

fun py_iter :: "py \<Rightarrow> py_error + py list" where
  "py_iter (PList xs) = Inr xs"
| "py_iter (PDict kvs) = Inr (map (\<lambda>kv. PStr (fst kv)) kvs)"
| "py_iter (PStr s) = Inr (map (\<lambda>c. PStr [c]) s)"
| "py_iter x = Inl TypeError"

text \<open>
  \<open>f"{v}"\<close>, where the result is used as a string (a URL, a zone name): a string is
  itself; \<open>str\<close> of a number, a list or a dict is left to the parameter \<open>render\<close>.
\<close>

fun fmt :: "(py \<Rightarrow> string) \<Rightarrow> py \<Rightarrow> string" where
  "fmt render (PStr s) = s"
| "fmt render PNone = ''None''"
| "fmt render (PBool b) = (if b then ''True'' else ''False'')"
| "fmt render v = render v"

text \<open>\<open>str.isspace\<close> on one code point below 256: TAB..CR, FS..US, space, NEL, NBSP.\<close>

definition py_isspace :: "char \<Rightarrow> bool" where
  "py_isspace c =
     (let n = (of_char c :: nat)
      in (9 \<le> n \<and> n \<le> 13) \<or> (28 \<le> n \<and> n \<le> 32) \<or> n = 133 \<or> n = 160)"

text \<open>\<open>s.strip()\<close>: leading and trailing whitespace removed.\<close>

definition strip :: "string \<Rightarrow> string" where
  "strip s = rev (dropWhile py_isspace (rev (dropWhile py_isspace s)))"

text \<open>\<open>s.split(c)\<close> for a one-character separator: never the empty list.\<close>

fun split_on :: "char \<Rightarrow> string \<Rightarrow> string list" where
  "split_on c [] = [[]]"
| "split_on c (x # xs) =
     (if x = c then [] # split_on c xs
      else (case split_on c xs of
              w # ws \<Rightarrow> (x # w) # ws
            | [] \<Rightarrow> [[x]]))"

text \<open>\<open>k.replace("_", "-")\<close>.\<close>

definition dashed :: "string \<Rightarrow> string" where
  "dashed k = map (\<lambda>c. if c = CHR ''_'' then CHR ''-'' else c) k"

definition nl :: string where
  "nl = [CHR 0x0A]"

section \<open>Messages, requests and the world\<close>

text \<open>
  A message that is only printed, logged or indexed is kept as the list of the parts
  of its f-string: text, an interpolated number, an interpolated value (not rendered).
\<close>

datatype part = S string | N nat | V py

type_synonym msg = "part list"

datatype http_method = GET | POST | PUT | DELETE

text \<open>The arguments of \<open>session.get\<close> and \<open>session.put\<close>.\<close>

record request =
  r_method :: http_method
  r_url :: string
  r_headers :: "(string \<times> string) list"
  r_params :: "(string \<times> string) list"
  r_data :: "py option"
  r_json :: "py option"
  r_timeout :: nat

text \<open>
  What the code reads of a \<open>requests.Response\<close>: \<open>json_body\<close> is \<open>None\<close> when
  \<open>response.json()\<close> raises, \<open>next_url\<close> is \<open>response.links["next"]["url"]\<close> when
  \<open>response.links\<close> has a \<open>"next"\<close> entry.
\<close>

record response =
  ok :: bool
  status_code :: nat
  reason :: string
  json_body :: "py option"
  next_url :: "string option"

text \<open>A call of the session returns a response or raises an exception (its text).\<close>

datatype outcome = Raises string | Responds response

record es_doc =
  doc_module :: string
  doc_event_type :: string
  doc_event :: msg

text \<open>\<open>es.index(...)\<close>, given the documents indexed so far: \<open>Some e\<close> when it raises.\<close>

type_synonym es_client = "es_doc list \<Rightarrow> es_doc \<Rightarrow> string option"

text \<open>
  \<open>ctx.obj\<close>. The session answers a request given the requests sent before it; \<open>es\<close>
  is \<open>None\<close> when no Elasticsearch client is configured.
\<close>

record ctx =
  base_url :: string
  api_token :: string
  session :: "request list \<Rightarrow> request \<Rightarrow> outcome"
  es :: "es_client option"
  data_dir :: string
  profile_id :: string

record datetime =
  month :: nat
  day :: nat
  year :: nat
  hour :: nat
  minute :: nat

text \<open>
  What the machine supplies: the answers to \<open>click.confirm\<close>, by prompt, the clock, and
  the file system: \<open>can_open p\<close> holds when \<open>open(p, "w")\<close> succeeds, and where it does not
  (the directory is missing or not writable) \<open>open\<close> raises an \<open>OSError\<close>.
\<close>

record host =
  confirm :: "string \<Rightarrow> bool"
  now :: datetime
  can_open :: "msg \<Rightarrow> bool"

text \<open>
  Everything the program does to its surroundings: the HTTP requests sent, the lines
  printed by \<open>click.echo\<close> and \<open>click.secho\<close> (with the colour), the records of
  \<open>LOGGER\<close>, the documents indexed in Elasticsearch, the seconds slept, the files
  written.
\<close>

record world =
  http :: "request list"
  console :: "(msg \<times> string option) list"
  logfile :: "(string \<times> msg) list"
  indexed :: "es_doc list"
  slept :: nat
  files :: "(msg \<times> py list) list"

definition echo :: "msg \<Rightarrow> world \<Rightarrow> world" where
  "echo m w = w\<lparr>console := console w @ [(m, None)]\<rparr>"

definition secho :: "msg \<Rightarrow> string \<Rightarrow> world \<Rightarrow> world" where
  "secho m fg w = w\<lparr>console := console w @ [(m, Some fg)]\<rparr>"

definition logger :: "string \<Rightarrow> msg \<Rightarrow> world \<Rightarrow> world" where
  "logger level m w = w\<lparr>logfile := logfile w @ [(level, m)]\<rparr>"

definition sleep :: "nat \<Rightarrow> world \<Rightarrow> world" where
  "sleep n w = w\<lparr>slept := slept w + n\<rparr>"

text \<open>
  A statement sequence that can raise: it runs in a world and ends with an exception
  or a value, and the world as it left it.
\<close>

type_synonym 'a action = "world \<Rightarrow> (py_error + 'a) \<times> world"

definition ret :: "'a \<Rightarrow> 'a action" where
  "ret x w = (Inr x, w)"

definition raise :: "py_error \<Rightarrow> 'a action" where
  "raise e w = (Inl e, w)"

definition lift :: "py_error + 'a \<Rightarrow> 'a action" where
  "lift r w = (r, w)"

definition effect :: "(world \<Rightarrow> world) \<Rightarrow> unit action" where
  "effect f w = (Inr (), f w)"

definition andthen :: "'a action \<Rightarrow> ('a \<Rightarrow> 'b action) \<Rightarrow> 'b action" where
  "andthen m f w = (case m w of (Inl e, w') \<Rightarrow> (Inl e, w') | (Inr x, w') \<Rightarrow> f x w')"

fun steps :: "unit action list \<Rightarrow> unit action" where
  "steps [] = ret ()"
| "steps (m # ms) = andthen m (\<lambda>_. steps ms)"

fun foreach :: "('a \<Rightarrow> unit action) \<Rightarrow> 'a list \<Rightarrow> unit action" where
  "foreach f [] = ret ()"
| "foreach f (x # xs) = andthen (f x) (\<lambda>_. foreach f xs)"

section \<open>The option store (core.py)\<close>

text \<open>
  \<open>MODULE_OPTIONS\<close> is a dict from option name to \<open>{"value", "required", "help"}\<close>;
  it is kept as the list of its items, in the order Python iterates over them.
\<close>

record module_option =
  opt_value :: py
  opt_required :: bool
  opt_help :: string

type_synonym module_options = "(string \<times> module_option) list"

text \<open>\<open>module_options[k]["value"] = v\<close>: \<open>KeyError\<close> when \<open>k\<close> is not a key.\<close>

definition assign_value :: "module_options \<Rightarrow> string \<Rightarrow> py \<Rightarrow> py_error + module_options" where
  "assign_value mo k v =
     (if k \<in> fst ` set mo
      then Inr (map (\<lambda>(k', e). if k' = k then (k', e\<lparr>opt_value := v\<rparr>) else (k', e)) mo)
      else Inl (KeyError k))"

text \<open>
  One turn of the loop of \<open>set_module_options\<close>. The supplied value is \<open>None\<close> or a
  string (a click option), and is true when it is a non-empty string.
\<close>

fun set_one :: "module_options \<Rightarrow> string \<Rightarrow> string option \<Rightarrow> py_error + module_options" where
  "set_one mo k None = Inr mo"
| "set_one mo k (Some v) =
     (if k = ''group_ids'' \<and> v \<noteq> [] then
        assign_value mo k (PList (map PStr (split_on CHR '','' (strip v))))
      else if v \<noteq> [] then
        assign_value mo k (PStr (strip v))
      else Inr mo)"

text \<open>
  \<open>set_module_options\<close> changes the store in place: the result is the store as the call
  leaves it, and the exception it ends with, if any (\<open>None\<close>: it returns that store).
\<close>

fun set_module_options ::
  "module_options \<Rightarrow> (string \<times> string option) list \<Rightarrow> module_options \<times> py_error option" where
  "set_module_options mo [] = (mo, None)"
| "set_module_options mo ((k, v) # new_options) =
     (case set_one mo k v of
        Inl e \<Rightarrow> (mo, Some e)
      | Inr mo' \<Rightarrow> set_module_options mo' new_options)"

definition reset_module_options :: "module_options \<Rightarrow> module_options" where
  "reset_module_options mo = map (\<lambda>(k, v). (k, v\<lparr>opt_value := PNone\<rparr>)) mo"

definition missing_option_msg :: "string \<Rightarrow> msg" where
  "missing_option_msg k =
     [S ''[!] Unable to execute module. Required value not set: '', S (dashed k),
      S ''. Set required value and try again'']"

text \<open>
  \<open>check_module_options\<close>: both branches of the loop body return, so the body runs for
  the first item only; with no item the function returns \<open>None\<close>.
\<close>

fun check_module_options :: "module_options \<Rightarrow> world \<Rightarrow> bool option \<times> world" where
  "check_module_options [] w = (None, w)"
| "check_module_options ((k, v) # rest) w =
     (if opt_required v \<and> \<not> py_truthy (opt_value v)
      then (Some True, secho (missing_option_msg k) ''red'' w)
      else (Some False, w))"

text \<open>\<open>MODULE_OPTIONS["id"]["value"]\<close>.\<close>

definition option_value :: "module_options \<Rightarrow> string \<Rightarrow> py_error + py" where
  "option_value mo k =
     (case map_of mo k of None \<Rightarrow> Inl (KeyError k) | Some e \<Rightarrow> Inr (opt_value e))"

section \<open>Event logging and HTTP calls (core.py)\<close>

definition URL_OR_API_TOKEN_ERROR :: string where
  "URL_OR_API_TOKEN_ERROR =
     ''ERROR. Verify that the Okta URL and API token in your configuration profile are correct''"

text \<open>\<open>__name__\<close> in core.py, modify_zone.py and get_user.py.\<close>

definition core_module :: string where
  "core_module = ''dorothy.core''"

definition modify_zone_module :: string where
  "modify_zone_module = ''dorothy.modules.defense_evasion.modify_zone''"

definition get_user_module :: string where
  "get_user_module = ''dorothy.modules.discovery.get_user''"

text \<open>
  \<open>index_event\<close>: nothing without a client; with one, \<open>es.index\<close> runs inside
  \<open>try\<close>, and the \<open>except Exception\<close> branch logs and prints a warning. The timestamp
  and the MD5 identifier of the document are not kept.
\<close>

definition index_event :: "es_client option \<Rightarrow> string \<Rightarrow> string \<Rightarrow> msg \<Rightarrow> unit action" where
  "index_event sink module event_type event w =
     (case sink of
        None \<Rightarrow> (Inr (), w)
      | Some client \<Rightarrow>
          (let doc = \<lparr>doc_module = module, doc_event_type = event_type, doc_event = event\<rparr>
           in case client (indexed w) doc of
                None \<Rightarrow> (Inr (), w\<lparr>indexed := indexed w @ [doc]\<rparr>)
              | Some e \<Rightarrow>
                  (Inr (),
                   secho [S ''[!] Error indexing event in Elasticsearch. Review dorothy.log for further information'']
                     ''red'' (logger ''ERROR'' [S e] w))))"

definition std_headers :: "ctx \<Rightarrow> (string \<times> string) list" where
  "std_headers c =
     [(''Accept'', ''application/json''),
      (''Content-Type'', ''application/json''),
      (''Authorization'', ''SSWS '' @ api_token c)]"

text \<open>\<open>ctx.obj.session.get(url, headers=headers, params={}, data={}, timeout=7)\<close>.\<close>

definition get_request :: "ctx \<Rightarrow> string \<Rightarrow> request" where
  "get_request c url =
     \<lparr>r_method = GET, r_url = url, r_headers = std_headers c, r_params = [],
      r_data = Some (PDict []), r_json = None, r_timeout = 7\<rparr>"

text \<open>\<open>ctx.obj.session.put(url, headers=headers, params={}, json=payload, timeout=7)\<close>.\<close>

definition put_request :: "ctx \<Rightarrow> string \<Rightarrow> py \<Rightarrow> request" where
  "put_request c url body =
     \<lparr>r_method = PUT, r_url = url, r_headers = std_headers c, r_params = [],
      r_data = None, r_json = Some body, r_timeout = 7\<rparr>"

text \<open>The call of the session: the request is sent, the session answers or raises.\<close>

definition send :: "ctx \<Rightarrow> request \<Rightarrow> outcome action" where
  "send c req w = (Inr (session c (http w) req), w\<lparr>http := http w @ [req]\<rparr>)"

text \<open>The body of \<open>except Exception as e\<close> around a call of the session.\<close>

definition except_block :: "ctx \<Rightarrow> string \<Rightarrow> string \<Rightarrow> msg \<Rightarrow> unit action" where
  "except_block c module e event =
     steps [effect (logger ''ERROR'' [S e]),
            index_event (es c) module ''ERROR'' event,
            effect (secho [S ''[!] '', S URL_OR_API_TOKEN_ERROR] ''red'')]"

text \<open>
  \<open>try: response = session.get(...)\<close> \<open>except Exception as e: ...; response = None\<close>:
  the value of \<open>response\<close> after the statement.
\<close>

definition try_send :: "ctx \<Rightarrow> string \<Rightarrow> request \<Rightarrow> response option action" where
  "try_send c module req =
     andthen (send c req) (\<lambda>out.
       case out of
         Responds r \<Rightarrow> ret (Some r)
       | Raises e \<Rightarrow> andthen (except_block c module e [S e]) (\<lambda>_. ret None))"

text \<open>Reading \<open>response.ok\<close>: \<open>None\<close> has no attribute \<open>ok\<close>.\<close>

definition attr_ok :: "response option \<Rightarrow> response action" where
  "attr_ok x = (case x of None \<Rightarrow> raise AttributeError | Some r \<Rightarrow> ret r)"

definition response_json :: "response \<Rightarrow> py action" where
  "response_json r =
     (case json_body r of None \<Rightarrow> raise JSONDecodeError | Some j \<Rightarrow> ret j)"

text \<open>
  The error message that every function builds from a response that is not ok:
  \<open>head\<close>, then the status code, the reason, and \<open>response.json().get("errorCode")\<close>
  and \<open>response.json().get("errorSummary")\<close>.
\<close>

definition http_error_msg :: "msg \<Rightarrow> response \<Rightarrow> msg action" where
  "http_error_msg head r =
     andthen (response_json r) (\<lambda>j1.
     andthen (lift (py_get j1 ''errorCode'')) (\<lambda>code.
     andthen (response_json r) (\<lambda>j2.
     andthen (lift (py_get j2 ''errorSummary'')) (\<lambda>summary.
     ret (head @
          [S nl, S ''    Response Code: '', N (status_code r),
           S '' | Response Reason: '', S (reason r),
           S nl, S ''    Error Code: '', V code,
           S '' | Error Summary: '', V summary])))))"

definition print_user_info :: "py \<Rightarrow> unit action" where
  "print_user_info user =
     andthen (lift (py_get user ''id'')) (\<lambda>uid.
     andthen (lift (py_item user ''profile'')) (\<lambda>profile.
     andthen (lift (py_get profile ''login'')) (\<lambda>login.
     andthen (effect (echo [S ''[*] User information for ID '', V uid,
                            S '', login '', V login, S '':''])) (\<lambda>_.
     andthen (lift (py_get_default user ''id'' (PStr ''unknown''))) (\<lambda>uid'.
     andthen (lift (py_get_default user ''status'' (PStr ''unknown''))) (\<lambda>status.
     andthen (lift (py_item user ''profile'')) (\<lambda>profile'.
     andthen (lift (py_get_default profile' ''login'' (PStr ''unknown''))) (\<lambda>login'.
     andthen (lift (py_get_default user ''lastLogin'' (PStr ''unknown''))) (\<lambda>last_login.
     andthen (lift (py_get_default user ''passwordChanged'' (PStr ''unknown''))) (\<lambda>changed.
     effect (echo [S ''    ID: '', V uid', S nl,
                   S ''    Status: '', V status, S nl,
                   S ''    Login: '', V login', S nl,
                   S ''    Last login: '', V last_login, S nl,
                   S ''    Last password change: '', V changed])))))))))))"

definition get_current_user :: "ctx \<Rightarrow> py action" where
  "get_current_user c =
     andthen (try_send c core_module (get_request c (base_url c @ ''/users/me''))) (\<lambda>response.
     andthen (attr_ok response) (\<lambda>r.
       if \<not> ok r then
         andthen (http_error_msg [S ''Error retrieving user information''] r) (\<lambda>msg.
         andthen (steps [effect (logger ''ERROR'' msg),
                         index_event (es c) core_module ''ERROR'' msg,
                         effect (secho (S ''[!] '' # msg) ''red'')]) (\<lambda>_.
         ret PNone))
       else
         andthen (response_json r) (\<lambda>user.
         andthen (print_user_info user) (\<lambda>_.
         ret user))))"

text \<open>\<open>get_user_object\<close> returns the flag \<open>error\<close>.\<close>

definition get_user_object :: "(py \<Rightarrow> string) \<Rightarrow> ctx \<Rightarrow> py \<Rightarrow> bool action" where
  "get_user_object render c user_id =
     andthen (try_send c core_module
                (get_request c (base_url c @ ''/users/'' @ fmt render user_id))) (\<lambda>response.
     andthen (attr_ok response) (\<lambda>r.
       if \<not> ok r then
         andthen (http_error_msg [S ''Error retrieving user information''] r) (\<lambda>msg.
         andthen (steps [effect (logger ''ERROR'' msg),
                         index_event (es c) core_module ''ERROR'' msg,
                         effect (secho (S ''[!] '' # msg) ''red''),
                         effect (echo [S ''[*] This error is expected if the user object was deleted''])])
           (\<lambda>_.
         ret True))
       else
         andthen (response_json r) (\<lambda>user.
         andthen (print_user_info user) (\<lambda>_.
         ret False))))"

definition print_group :: "py \<Rightarrow> unit action" where
  "print_group grp =
     andthen (lift (py_get_default grp ''id'' (PStr ''unknown''))) (\<lambda>gid.
     andthen (lift (py_get_default grp ''type'' (PStr ''unknown''))) (\<lambda>ty.
     andthen (lift (py_item grp ''profile'')) (\<lambda>profile.
     andthen (lift (py_get_default profile ''name'' (PStr ''unknown''))) (\<lambda>name.
     andthen (lift (py_item grp ''profile'')) (\<lambda>profile'.
     andthen (lift (py_get_default profile' ''description'' (PStr ''unknown''))) (\<lambda>description.
     effect (echo [S ''    Group ID: '', V gid, S nl,
                   S ''    Type: '', V ty, S nl,
                   S ''    Name: '', V name, S nl,
                   S ''    Description: '', V description])))))))"

text \<open>\<open>print_group_information\<close>: \<open>for group in groups\<close>, the loop body is \<open>print_group\<close>.\<close>

definition print_group_information :: "py \<Rightarrow> unit action" where
  "print_group_information groups =
     andthen (lift (py_iter groups)) (\<lambda>items. foreach print_group items)"

definition get_user_groups :: "(py \<Rightarrow> string) \<Rightarrow> ctx \<Rightarrow> py \<Rightarrow> unit action" where
  "get_user_groups render c user_id =
     (let msg = [S ''Attempting to get group memberships for user ID '', V user_id] in
      andthen (steps [effect (logger ''INFO'' msg),
                      index_event (es c) core_module ''INFO'' msg,
                      effect (echo (S ''[*] '' # msg))]) (\<lambda>_.
      andthen (send c (get_request c (base_url c @ ''/users/'' @ fmt render user_id @ ''/groups'')))
        (\<lambda>out.
      andthen (case out of
                 Responds r \<Rightarrow> ret (Some r)
               | Raises e \<Rightarrow> andthen (except_block c core_module e msg) (\<lambda>_. ret None))
        (\<lambda>response.
      andthen (attr_ok response) (\<lambda>r.
        if \<not> ok r then
          andthen (http_error_msg [S ''Error retrieving user's group memberships''] r) (\<lambda>msg'.
          steps [effect (logger ''ERROR'' msg'),
                 index_event (es c) core_module ''ERROR'' msg',
                 effect (secho (S ''[!] '' # msg') ''red'')])
        else
          andthen (response_json r) (\<lambda>groups.
          if py_truthy groups then
            andthen (effect (echo [S ''[*] Group memberships for user ID '', V user_id, S '':'']))
              (\<lambda>_. print_group_information groups)
          else ret ()))))))"

definition print_zone_object :: "py \<Rightarrow> unit action" where
  "print_zone_object zone =
     andthen (lift (py_get zone ''id'')) (\<lambda>zid.
     andthen (lift (py_get zone ''name'')) (\<lambda>name.
     andthen (effect (echo [S ''[*] Information for network zone ID '', V zid,
                            S '' ('', V name, S ''):''])) (\<lambda>_.
     andthen (lift (py_get_default zone ''status'' (PStr ''unknown''))) (\<lambda>status.
     andthen (lift (py_get_default zone ''created'' (PStr ''unknown''))) (\<lambda>created.
     andthen (lift (py_get_default zone ''lastUpdated'' (PStr ''unknown''))) (\<lambda>updated.
     effect (echo [S ''    Status: '', V status, S nl,
                   S ''    Created: '', V created, S nl,
                   S ''    Last Updated: '', V updated])))))))"

definition print_app_object :: "py \<Rightarrow> unit action" where
  "print_app_object app =
     andthen (lift (py_get app ''id'')) (\<lambda>aid.
     andthen (lift (py_get app ''name'')) (\<lambda>name.
     andthen (effect (echo [S ''[*] Information for application '', V aid,
                            S '' ('', V name, S ''):''])) (\<lambda>_.
     andthen (lift (py_get_default app ''status'' (PStr ''unknown''))) (\<lambda>status.
     andthen (lift (py_get_default app ''label'' (PStr ''unknown''))) (\<lambda>label.
     andthen (lift (py_get_default app ''created'' (PStr ''unknown''))) (\<lambda>created.
     andthen (lift (py_get_default app ''lastUpdated'' (PStr ''unknown''))) (\<lambda>updated.
     effect (echo [S ''    Status: '', V status, S nl,
                   S ''    Label: '', V label, S nl,
                   S ''    Created: '', V created, S nl,
                   S ''    Last Updated: '', V updated]))))))))"

text \<open>\<open>get_zone_object\<close> returns the zone, or \<open>None\<close> when the response is not ok.\<close>

definition get_zone_object :: "(py \<Rightarrow> string) \<Rightarrow> ctx \<Rightarrow> py \<Rightarrow> py action" where
  "get_zone_object render c zone_id =
     (let msg = [S ''Attempting to get network zone '', V zone_id] in
      andthen (steps [effect (logger ''INFO'' msg),
                      index_event (es c) core_module ''INFO'' msg,
                      effect (echo (S ''[*] '' # msg))]) (\<lambda>_.
      andthen (try_send c core_module
                 (get_request c (base_url c @ ''/zones/'' @ fmt render zone_id))) (\<lambda>response.
      andthen (attr_ok response) (\<lambda>r.
        if ok r then
          (let msg' = [S ''Retrieved zone '', V zone_id] in
           andthen (steps [effect (logger ''INFO'' msg'),
                           index_event (es c) core_module ''INFO'' msg',
                           effect (secho (S ''[*] '' # msg') ''green'')]) (\<lambda>_.
           andthen (response_json r) (\<lambda>zone.
           andthen (print_zone_object zone) (\<lambda>_.
           ret zone))))
        else
          andthen (http_error_msg [S ''Error retrieving zone '', V zone_id] r) (\<lambda>msg'.
          andthen (steps [effect (logger ''ERROR'' msg'),
                          index_event (es c) core_module ''ERROR'' msg',
                          effect (secho (S ''[!] '' # msg') ''red'')]) (\<lambda>_.
          ret PNone))))))"

section \<open>Paginated harvests (core.py)\<close>

text \<open>
  The \<open>while next_page\<close> loops of \<open>list_users\<close>, \<open>list_groups\<close>, \<open>list_zones\<close> and
  \<open>list_apps\<close> are the same text up to the noun in their messages (users, groups,
  zones, applications), so one turn of the loop is one function of that noun. A turn
  ends in \<open>return\<close> (\<open>Abort\<close>), with \<open>next_page\<close> set to the next URL (\<open>Next\<close>), or
  with \<open>next_page = None\<close> (\<open>Done\<close>); the list is \<open>harvested\<close> after \<open>extend\<close>.
\<close>

datatype page_result = Abort | Next string "py list" | Done "py list"

definition harvest_page :: "ctx \<Rightarrow> string \<Rightarrow> string \<Rightarrow> py list \<Rightarrow> page_result action" where
  "harvest_page c noun url harvested =
     andthen (try_send c core_module (get_request c url)) (\<lambda>response.
     andthen (attr_ok response) (\<lambda>r.
       if ok r then
         andthen (response_json r) (\<lambda>j.
         andthen (lift (py_len j)) (\<lambda>n.
         (let msg = [S ''Retrieved information for '', N n, S '' '', S noun] in
          andthen (steps [effect (logger ''INFO'' msg),
                          index_event (es c) core_module ''INFO'' msg,
                          effect (secho (S ''[*] '' # msg) ''green'')]) (\<lambda>_.
          andthen (response_json r) (\<lambda>page.
          andthen (lift (py_iter page)) (\<lambda>items.
          andthen (effect (sleep 1)) (\<lambda>_.
            case next_url r of
              Some next_page \<Rightarrow> ret (Next next_page (harvested @ items))
            | None \<Rightarrow>
                andthen (effect (echo [S ''[*] No more '', S noun, S '' found''])) (\<lambda>_.
                ret (Done (harvested @ items))))))))))
       else
         andthen (http_error_msg [S ''Error retrieving '', S noun] r) (\<lambda>msg.
         andthen (steps [effect (logger ''ERROR'' msg),
                         index_event (es c) core_module ''ERROR'' msg,
                         effect (secho (S ''[!] '' # msg) ''red'')]) (\<lambda>_.
         ret Abort))))"

text \<open>
  The loop, with fuel for the number of turns: \<open>None\<close> when the fuel runs out before
  the loop ends. Otherwise the loop raised, the function returned \<open>None\<close> from inside
  the loop (\<open>Inr None\<close>), or the loop ended with the harvested list. The loop ends
  when \<open>next_page\<close> is false: \<open>None\<close>, or an empty URL.
\<close>

fun harvest_loop ::
  "nat \<Rightarrow> ctx \<Rightarrow> string \<Rightarrow> string \<Rightarrow> py list \<Rightarrow> world \<Rightarrow>
     ((py_error + py list option) \<times> world) option" where
  "harvest_loop 0 c noun url harvested w = None"
| "harvest_loop (Suc fuel) c noun url harvested w =
     (case harvest_page c noun url harvested w of
        (Inl e, w') \<Rightarrow> Some (Inl e, w')
      | (Inr Abort, w') \<Rightarrow> Some (Inr None, w')
      | (Inr (Done harvested'), w') \<Rightarrow> Some (Inr (Some harvested'), w')
      | (Inr (Next next_page harvested'), w') \<Rightarrow>
          if next_page = [] then Some (Inr (Some harvested'), w')
          else harvest_loop fuel c noun next_page harvested' w')"

text \<open>
  \<open>write_json_file\<close>: the path is the file name and the time stamp; the message is
  printed, then \<open>open(file_path, "w")\<close> raises where the file cannot be opened, and
  \<open>json.dump\<close> writes the results, which are values read from JSON.
\<close>

definition write_json_file :: "host \<Rightarrow> msg \<Rightarrow> py list \<Rightarrow> msg action" where
  "write_json_file h file_name results =
     (let t = now h;
          file_path = file_name @
            [S ''_'', N (month t), S ''-'', N (day t), S ''-'', N (year t),
             S ''_'', N (hour t), S ''-'', N (minute t), S ''.json'']
      in andthen (effect (secho (S ''[*] Writing results to '' # file_path) ''green'')) (\<lambda>_.
         if can_open h file_path then
           andthen (effect (\<lambda>w. w\<lparr>files := files w @ [(file_path, results)]\<rparr>)) (\<lambda>_.
           ret file_path)
         else raise OSError))"

text \<open>What each function does after its loop, from \<open>if harvested_users:\<close> on.\<close>

definition list_users_tail :: "host \<Rightarrow> ctx \<Rightarrow> py list \<Rightarrow> py action" where
  "list_users_tail h c harvested_users =
     andthen
       (if harvested_users \<noteq> [] then
          (let msg = [S ''Total users harvested: '', N (length harvested_users)] in
           andthen (steps [effect (logger ''INFO'' msg),
                           index_event (es c) core_module ''INFO'' msg,
                           effect (echo (S ''[*] '' # msg))]) (\<lambda>_.
           andthen (if confirm h ''[*] Do you want to print harvested user information?''
                    then foreach print_user_info harvested_users else ret ()) (\<lambda>_.
           if confirm h ''[*] Do you want to save harvested user information to a file?''
           then andthen (write_json_file h
                           [S (data_dir c), S ''/'', S (profile_id c), S ''_harvested_users'']
                           harvested_users) (\<lambda>_. ret ())
           else ret ())))
        else ret ())
       (\<lambda>_. ret (PList harvested_users))"

definition list_groups_tail :: "host \<Rightarrow> ctx \<Rightarrow> py list \<Rightarrow> py action" where
  "list_groups_tail h c harvested_groups =
     andthen
       (if harvested_groups \<noteq> [] then
          (let msg = [S ''Total groups harvested: '', N (length harvested_groups)] in
           andthen (steps [effect (logger ''INFO'' msg),
                           index_event (es c) core_module ''INFO'' msg,
                           effect (echo (S ''[*] '' # msg))]) (\<lambda>_.
           andthen (if confirm h ''[*] Do you want to print harvested group information?''
                    then print_group_information (PList harvested_groups) else ret ()) (\<lambda>_.
           if confirm h ''[*] Do you want to save harvested group information to a file?''
           then andthen (write_json_file h
                           [S (data_dir c), S ''/'', S (profile_id c), S ''_harvested_groups'']
                           harvested_groups) (\<lambda>_. ret ())
           else ret ())))
        else ret ())
       (\<lambda>_. ret (PList harvested_groups))"

definition list_zones_tail :: "host \<Rightarrow> ctx \<Rightarrow> py list \<Rightarrow> py action" where
  "list_zones_tail h c harvested_zones =
     andthen
       (if harvested_zones \<noteq> [] then
          (let msg = [S ''Total zones harvested: '', N (length harvested_zones)] in
           andthen (steps [effect (logger ''INFO'' msg),
                           index_event (es c) core_module ''INFO'' msg,
                           effect (secho (S ''[*] '' # msg) ''green'')]) (\<lambda>_.
           (let file_path = [S (data_dir c), S ''/'', S (profile_id c), S ''_harvested_zones''] in
            andthen (if confirm h ''[*] Do you want to print harvested network zone information?''
                     then foreach print_zone_object harvested_zones else ret ()) (\<lambda>_.
            if confirm h ''[*] Do you want to save harvested network zone information to a file?''
            then andthen (write_json_file h file_path harvested_zones) (\<lambda>_. ret ())
            else ret ()))))
        else ret ())
       (\<lambda>_. ret (PList harvested_zones))"

definition list_apps_tail :: "host \<Rightarrow> ctx \<Rightarrow> py list \<Rightarrow> py action" where
  "list_apps_tail h c harvested_apps =
     andthen
       (if harvested_apps \<noteq> [] then
          (let msg = [S ''Total applications harvested: '', N (length harvested_apps)] in
           andthen (steps [effect (logger ''INFO'' msg),
                           index_event (es c) core_module ''INFO'' msg,
                           effect (secho (S ''[*] '' # msg) ''green'')]) (\<lambda>_.
           andthen (if confirm h ''[*] Do you want to print harvested application info?''
                    then foreach print_app_object harvested_apps else ret ()) (\<lambda>_.
           if confirm h ''[*] Do you want to save harvested applications information to a file?''
           then andthen (write_json_file h
                           [S (data_dir c), S ''/'', S (profile_id c), S ''_harvested_apps'']
                           harvested_apps) (\<lambda>_. ret ())
           else ret ())))
        else ret ())
       (\<lambda>_. ret (PList harvested_apps))"

text \<open>
  A harvest: the loop from the first URL with an empty list, then the tail. The result
  is \<open>None\<close> when the fuel does not suffice for the loop; the Python \<open>None\<close> of a bare
  \<open>return\<close> is \<open>PNone\<close>.
\<close>

definition harvest ::
  "nat \<Rightarrow> ctx \<Rightarrow> string \<Rightarrow> string \<Rightarrow> (py list \<Rightarrow> py action) \<Rightarrow> world \<Rightarrow>
     ((py_error + py) \<times> world) option" where
  "harvest fuel c noun url tail w =
     (case harvest_loop fuel c noun url [] w of
        None \<Rightarrow> None
      | Some (Inl e, w') \<Rightarrow> Some (Inl e, w')
      | Some (Inr None, w') \<Rightarrow> Some (Inr PNone, w')
      | Some (Inr (Some harvested), w') \<Rightarrow> Some (tail harvested w'))"

definition list_users :: "host \<Rightarrow> ctx \<Rightarrow> nat \<Rightarrow> world \<Rightarrow> ((py_error + py) \<times> world) option" where
  "list_users h c fuel = harvest fuel c ''users'' (base_url c @ ''/users'') (list_users_tail h c)"

definition list_groups :: "host \<Rightarrow> ctx \<Rightarrow> nat \<Rightarrow> world \<Rightarrow> ((py_error + py) \<times> world) option" where
  "list_groups h c fuel = harvest fuel c ''groups'' (base_url c @ ''/groups'') (list_groups_tail h c)"

definition list_zones :: "host \<Rightarrow> ctx \<Rightarrow> nat \<Rightarrow> world \<Rightarrow> ((py_error + py) \<times> world) option" where
  "list_zones h c fuel = harvest fuel c ''zones'' (base_url c @ ''/zones'') (list_zones_tail h c)"

definition list_apps :: "host \<Rightarrow> ctx \<Rightarrow> nat \<Rightarrow> world \<Rightarrow> ((py_error + py) \<times> world) option" where
  "list_apps h c fuel =
     harvest fuel c ''applications'' (base_url c @ ''/apps'') (list_apps_tail h c)"

section \<open>The modules modify_zone and get_user\<close>

text \<open>
  \<open>rename_zone\<close>. The message of the \<open>try\<close> block reads \<open>zone["id"]\<close>, which the URL
  before it has read already, so only the call of the session can raise there.
\<close>

definition rename_zone :: "(py \<Rightarrow> string) \<Rightarrow> ctx \<Rightarrow> py \<Rightarrow> py \<Rightarrow> py \<Rightarrow> unit action" where
  \<open>rename_zone render c zone original_name new_name =
     andthen (lift (py_item zone ''type'')) (\<lambda>ty.
     andthen (lift (py_get zone ''gateways'')) (\<lambda>gateways.
     andthen (lift (py_get zone ''proxies'')) (\<lambda>proxies.
     andthen (lift (py_item zone ''id'')) (\<lambda>zid.
     (let payload = PDict [(''type'', ty), (''name'', new_name),
                           (''gateways'', gateways), (''proxies'', proxies)];
          url = base_url c @ ''/zones/'' @ fmt render zid;
          msg = [S ''Attempting to rename network zone "'', V original_name, S ''" ('', V zid,
                 S '') to "'', V new_name, S ''"'']
      in
      andthen (steps [effect (logger ''INFO'' msg),
                      index_event (es c) modify_zone_module ''INFO'' msg,
                      effect (echo (S ''[*] '' # msg))]) (\<lambda>_.
      andthen (try_send c modify_zone_module (put_request c url payload)) (\<lambda>response.
      andthen (attr_ok response) (\<lambda>r.
        if ok r then
          (let msg' = [S ''Network zone "'', V original_name, S ''" ('', V zid,
                       S '') changed to "'', V new_name, S ''"'']
           in
           andthen (steps [effect (logger ''INFO'' msg'),
                           index_event (es c) modify_zone_module ''INFO'' msg',
                           effect (secho (S ''[*] '' # msg') ''green'')]) (\<lambda>_.
           andthen (get_zone_object render c zid) (\<lambda>_.
           effect (sleep 1))))
        else
          andthen (http_error_msg [S ''Error modifying network zone '', V zid] r) (\<lambda>msg'.
          steps [effect (logger ''ERROR'' msg'),
                 index_event (es c) modify_zone_module ''ERROR'' msg',
                 effect (secho (S ''[!] '' # msg') ''red'')])))))))))\<close>

text \<open>
  \<open>execute\<close> of modify_zone, with the module's \<open>MODULE_OPTIONS\<close> as \<open>mo\<close>. \<open>if error:\<close>
  holds for \<open>True\<close> only (\<open>check_module_options\<close> returns \<open>True\<close>, \<open>False\<close> or \<open>None\<close>).
\<close>

definition modify_zone_execute :: "(py \<Rightarrow> string) \<Rightarrow> ctx \<Rightarrow> module_options \<Rightarrow> unit action" where
  "modify_zone_execute render c mo w =
     (case check_module_options mo w of
        (error, w') \<Rightarrow>
          if error = Some True then (Inr (), w')
          else
            (andthen (lift (option_value mo ''id'')) (\<lambda>zone_id.
             andthen (get_zone_object render c zone_id) (\<lambda>zone.
             if py_truthy zone then
               andthen (lift (py_item zone ''name'')) (\<lambda>original_name.
               andthen (lift (py_item zone ''name'')) (\<lambda>name.
               (let new_name = PStr (fmt render name @ '' TEMP_STRING'') in
                andthen (rename_zone render c zone original_name new_name) (\<lambda>_.
                rename_zone render c zone new_name original_name))))
             else ret ()))) w')"

definition get_user_execute :: "(py \<Rightarrow> string) \<Rightarrow> ctx \<Rightarrow> module_options \<Rightarrow> unit action" where
  "get_user_execute render c mo w =
     (case check_module_options mo w of
        (error, w') \<Rightarrow>
          if error = Some True then (Inr (), w')
          else
            (andthen (lift (option_value mo ''id'')) (\<lambda>user_id.
             (let msg = [S ''Attempting to get profile and group memberships for user ID '',
                         V user_id]
              in
              andthen (steps [effect (logger ''INFO'' msg),
                              index_event (es c) get_user_module ''INFO'' msg,
                              effect (echo (S ''[*] '' # msg))]) (\<lambda>_.
              andthen (lift (option_value mo ''id'')) (\<lambda>user_id'.
              andthen (get_user_object render c user_id') (\<lambda>_.
              andthen (lift (option_value mo ''id'')) (\<lambda>user_id''.
              get_user_groups render c user_id''))))))) w')"

text \<open>\<open>MODULE_OPTIONS\<close> as modify_zone.py and get_user.py declare it.\<close>

definition modify_zone_MODULE_OPTIONS :: module_options where
  "modify_zone_MODULE_OPTIONS =
     [(''id'', \<lparr>opt_value = PNone, opt_required = True,
               opt_help = ''The unique ID for the network zone''\<rparr>)]"

definition get_user_MODULE_OPTIONS :: module_options where
  "get_user_MODULE_OPTIONS =
     [(''id'', \<lparr>opt_value = PNone, opt_required = True,
               opt_help = ''The unique ID for the user''\<rparr>)]"

section \<open>Auxiliary notions for the statements\<close>

text \<open>The value that one turn of the loop of \<open>set_module_options\<close> stores for a non-empty
  input \<open>v\<close> under the key \<open>k\<close>.\<close>

definition stored :: "string \<Rightarrow> string \<Rightarrow> py" where
  "stored k v =
     (if k = ''group_ids'' then PList (map PStr (split_on CHR '','' (strip v)))
      else PStr (strip v))"

text \<open>The world after a call of \<open>index_event\<close>.\<close>

definition indexed_world :: "es_client option \<Rightarrow> string \<Rightarrow> string \<Rightarrow> msg \<Rightarrow> world \<Rightarrow> world" where
  "indexed_world sink module event_type event w = snd (index_event sink module event_type event w)"








text \<open>An action that raises nothing and sends no request.\<close>

definition calm :: "'a action \<Rightarrow> bool" where
  "calm m = (\<forall>w. (\<exists>x. fst (m w) = Inr x) \<and> http (snd (m w)) = http w)"

text \<open>Concrete surroundings for the examples: a world in which nothing has happened, a
  user who answers every prompt with yes on a machine where every file can be opened, items as Okta returns them, responses, and
  a tenant with a given session.\<close>

definition empty_world :: world where
  "empty_world = \<lparr>http = [], console = [], logfile = [], indexed = [], slept = 0, files = []\<rparr>"

definition yes_host :: host where
  "yes_host = \<lparr>confirm = (\<lambda>prompt. True),
                now = \<lparr>month = 11, day = 4, year = 2026, hour = 10, minute = 30\<rparr>,
                can_open = (\<lambda>file_path. True)\<rparr>"

definition item :: "string \<Rightarrow> py" where
  "item i = PDict [(''id'', PStr i), (''profile'', PDict [(''login'', PStr i), (''name'', PStr i)])]"

definition page_response :: "py list \<Rightarrow> string option \<Rightarrow> response" where
  "page_response items nxt =
     \<lparr>ok = True, status_code = 200, reason = ''OK'', json_body = Some (PList items), next_url = nxt\<rparr>"

definition error_response :: response where
  "error_response =
     \<lparr>ok = False, status_code = 500, reason = ''Internal Server Error'',
      json_body = Some (PDict [(''errorCode'', PStr ''E0000009''),
                               (''errorSummary'', PStr ''Internal Server Error'')]),
      next_url = None\<rparr>"

definition tenant :: "(request list \<Rightarrow> request \<Rightarrow> outcome) \<Rightarrow> ctx" where
  "tenant s = \<lparr>base_url = ''https://t.okta.com/api/v1'', api_token = ''00a'', session = s,
               es = None, data_dir = ''/data'', profile_id = ''p1''\<rparr>"

text \<open>A session that answers the first request with a page of one item and a \<open>next\<close>
  link, and every later request with a last page of two items.\<close>

definition two_pages :: "request list \<Rightarrow> request \<Rightarrow> outcome" where
  "two_pages hist req =
     (if hist = [] then Responds (page_response [item ''a1''] (Some ''https://t.okta.com/p2''))
      else Responds (page_response [item ''a2'', item ''a3''] None))"


text \<open>Agreement of two actions, up to what they print, log and index.\<close>

definition agree :: "'a action \<Rightarrow> 'a action \<Rightarrow> bool" where
  "agree m1 m2 =
     (\<forall>w1 w2. http w1 = http w2 \<longrightarrow>
        fst (m1 w1) = fst (m2 w2) \<and> http (snd (m1 w1)) = http (snd (m2 w2)))"

text \<open>The same for two runs of a harvest: both run out of fuel, or both end with the same
  result and the same requests sent.\<close>

definition same_run ::
  "((py_error + 'a) \<times> world) option \<Rightarrow> ((py_error + 'a) \<times> world) option \<Rightarrow> bool" where
  "same_run r1 r2 =
     (map_option fst r1 = map_option fst r2 \<and>
      map_option (\<lambda>p. http (snd p)) r1 = map_option (\<lambda>p. http (snd p)) r2)"

text \<open>An Elasticsearch client whose \<open>index\<close> always raises.\<close>

definition broken_sink :: es_client where
  "broken_sink docs doc = Some ''ConnectionError''"

text \<open>An action that sends no request, whether it returns or raises.\<close>

definition quiet :: "'a action \<Rightarrow> bool" where
  "quiet m = (\<forall>w. http (snd (m w)) = http w)"

text \<open>\<open>zone.get(k)\<close> of a zone object, which is \<open>zone[k]\<close> where the zone has the key.\<close>

definition zone_field :: "(string \<times> py) list \<Rightarrow> string \<Rightarrow> py" where
  "zone_field zone k = (case map_of zone k of None \<Rightarrow> PNone | Some v \<Rightarrow> v)"

text \<open>The request of \<open>get_zone_object\<close> for a zone id.\<close>

definition lookup_request :: "(py \<Rightarrow> string) \<Rightarrow> ctx \<Rightarrow> py \<Rightarrow> request" where
  "lookup_request render c zone_id = get_request c (base_url c @ ''/zones/'' @ fmt render zone_id)"

text \<open>The request of \<open>rename_zone\<close> for a zone object and the name to set: the PUT on
  the URL of the zone, whose payload has the type, the gateways and the proxies of the zone.\<close>

definition rename_request :: "(py \<Rightarrow> string) \<Rightarrow> ctx \<Rightarrow> (string \<times> py) list \<Rightarrow> py \<Rightarrow> request" where
  "rename_request render c zone new_name =
     put_request c (base_url c @ ''/zones/'' @ fmt render (zone_field zone ''id''))
       (PDict [(''type'', zone_field zone ''type''), (''name'', new_name),
               (''gateways'', zone_field zone ''gateways''), (''proxies'', zone_field zone ''proxies'')])"

text \<open>A network zone, its lookup response, and a session that refuses the first PUT with
  status 500 and answers every other request with the zone.\<close>

definition zone_a :: "(string \<times> py) list" where
  "zone_a = [(''id'', PStr ''z1''), (''name'', PStr ''Zone A''), (''type'', PStr ''IP''),
             (''gateways'', PList [PDict [(''type'', PStr ''CIDR''), (''value'', PStr ''1.2.3.4/24'')]])]"

definition zone_response :: response where
  "zone_response =
     \<lparr>ok = True, status_code = 200, reason = ''OK'', json_body = Some (PDict zone_a),
      next_url = None\<rparr>"

definition first_rename_fails :: "request list \<Rightarrow> request \<Rightarrow> outcome" where
  "first_rename_fails hist req =
     (if r_method req = PUT \<and> list_all (\<lambda>q. r_method q = GET) hist
      then Responds error_response else Responds zone_response)"

text \<open>The option store of modify_zone with a value for \<open>id\<close>.\<close>

definition id_option :: "py \<Rightarrow> module_options" where
  "id_option v = [(''id'', \<lparr>opt_value = v, opt_required = True,
                           opt_help = ''The unique ID for the network zone''\<rparr>)]"

text \<open>A session that answers every GET with the zone and raises on every PUT.\<close>

definition every_put_raises :: "request list \<Rightarrow> request \<Rightarrow> outcome" where
  "every_put_raises hist req =
     (if r_method req = PUT then Raises ''ConnectTimeout'' else Responds zone_response)"
section \<open>Properties of the option store\<close>

lemma assign_value_keys:
  "assign_value mo k v = Inr mo' \<Longrightarrow> map fst mo' = map fst mo"
  by (auto simp: assign_value_def split: if_splits)

lemma map_of_update_entry:
  "map_of (map (\<lambda>(k', e). if k' = k then (k', f e) else (k', e)) mo) k' =
     (if k' = k then map_option f (map_of mo k) else map_of mo k')"
  by (induction mo) auto

lemma map_of_assign_value:
  "assign_value mo k v = Inr mo' \<Longrightarrow>
   map_of mo' k' = (if k' = k then map_option (\<lambda>e. e\<lparr>opt_value := v\<rparr>) (map_of mo k) else map_of mo k')"
  unfolding assign_value_def
  by (auto simp: map_of_update_entry split: if_splits)

lemma assign_value_defined:
  "k \<in> fst ` set mo \<Longrightarrow> \<exists>mo'. assign_value mo k v = Inr mo'"
  by (simp add: assign_value_def)

lemma set_one_keys: "set_one mo k v = Inr mo' \<Longrightarrow> map fst mo' = map fst mo"
  by (cases v) (auto split: if_splits dest: assign_value_keys)


lemma set_one_lookup:
  "set_one mo k v = Inr mo' \<Longrightarrow>
   map_of mo' k' =
     (if k' = k \<and> v \<noteq> None \<and> v \<noteq> Some []
      then map_option (\<lambda>e. e\<lparr>opt_value := stored k (the v)\<rparr>) (map_of mo k)
      else map_of mo k')"
  by (cases v) (auto simp: stored_def split: if_splits dest: map_of_assign_value)

lemma set_one_defined:
  "k \<in> fst ` set mo \<Longrightarrow> \<exists>mo'. set_one mo k v = Inr mo'"
  by (cases v) (force simp: assign_value_def)+

lemma set_module_options_keys:
  "map fst (fst (set_module_options mo new_options)) = map fst mo"
proof (induction new_options arbitrary: mo)
  case Nil
  then show ?case by simp
next
  case (Cons a new_options)
  obtain k v where a: "a = (k, v)" by (cases a)
  show ?case
  proof (cases "set_one mo k v")
    case (Inl e)
    then show ?thesis by (simp add: a)
  next
    case (Inr mo')
    then show ?thesis using Cons.IH [of mo'] set_one_keys [OF Inr] by (simp add: a)
  qed
qed

lemma set_module_options_returns:
  "fst ` set new_options \<subseteq> fst ` set mo \<Longrightarrow> snd (set_module_options mo new_options) = None"
proof (induction new_options arbitrary: mo)
  case Nil
  then show ?case by simp
next
  case (Cons a new_options)
  obtain k v where a: "a = (k, v)" by (cases a)
  from Cons.prems a have "k \<in> fst ` set mo" by auto
  then obtain mo' where s: "set_one mo k v = Inr mo'" using set_one_defined by blast
  have "fst ` set mo' = fst ` set mo" using set_one_keys [OF s] by (metis set_map)
  with Cons.prems have "fst ` set new_options \<subseteq> fst ` set mo'" by auto
  from Cons.IH [OF this] show ?case by (simp add: a s)
qed

lemma set_module_options_lookup:
  "distinct (map fst new_options) \<Longrightarrow> snd (set_module_options mo new_options) = None \<Longrightarrow>
   map_of (fst (set_module_options mo new_options)) k =
     (case map_of new_options k of
        Some (Some v) \<Rightarrow> if v \<noteq> [] then map_option (\<lambda>e. e\<lparr>opt_value := stored k v\<rparr>) (map_of mo k) else map_of mo k
      | _ \<Rightarrow> map_of mo k)"
proof (induction new_options arbitrary: mo)
  case Nil
  then show ?case by simp
next
  case (Cons a new_options)
  obtain k' v' where a: "a = (k', v')" by (cases a)
  show ?case
  proof (cases "set_one mo k' v'")
    case (Inl e)
    with Cons.prems show ?thesis by (simp add: a)
  next
    case (Inr mo')
    from Cons.prems have d: "distinct (map fst new_options)" and nk: "k' \<notin> fst ` set new_options"
      by (auto simp: a)
    from Cons.prems have r: "snd (set_module_options mo' new_options) = None" by (simp add: a Inr)
    have nk': "map_of new_options k' = None" using nk by (simp add: map_of_eq_None_iff)
    show ?thesis
      using Cons.IH [OF d r] set_one_lookup [OF Inr, of k] nk'
      by (auto simp: a Inr split: option.splits)
  qed
qed

lemma rev_dropWhile_split:
  "d = rev (dropWhile P (rev d)) @ rev (takeWhile P (rev d))"
  by (metis rev_append rev_rev_ident takeWhile_dropWhile_id)

lemma strip_decomp: "\<exists>a b. v = a @ strip v @ b \<and> list_all py_isspace a \<and> list_all py_isspace b"
proof -
  let ?d = "dropWhile py_isspace v"
  have 1: "v = takeWhile py_isspace v @ ?d" by simp
  have 2: "?d = strip v @ rev (takeWhile py_isspace (rev ?d))"
    unfolding strip_def by (rule rev_dropWhile_split)
  have 3: "list_all py_isspace (takeWhile py_isspace v)"
    by (simp add: list_all_iff) (meson set_takeWhileD)
  have 4: "list_all py_isspace (rev (takeWhile py_isspace (rev ?d)))"
    by (simp add: list_all_iff) (meson set_takeWhileD)
  from 1 2 have "v = takeWhile py_isspace v @ strip v @ rev (takeWhile py_isspace (rev ?d))"
    by metis
  with 3 4 show ?thesis by blast
qed

lemma strip_ends:
  assumes "strip v \<noteq> []"
  shows "\<not> py_isspace (hd (strip v)) \<and> \<not> py_isspace (last (strip v))"
proof -
  let ?d = "dropWhile py_isspace v"
  let ?e = "dropWhile py_isspace (rev ?d)"
  from assms have e: "?e \<noteq> []" by (simp add: strip_def)
  then have l: "\<not> py_isspace (hd ?e)" by (rule hd_dropWhile)
  have "last (strip v) = hd ?e" using e by (simp add: strip_def last_rev)
  with l have L: "\<not> py_isspace (last (strip v))" by simp
  have d: "?d \<noteq> []" using e by (metis dropWhile.simps(1) rev.simps(1))
  then have h: "\<not> py_isspace (hd ?d)" by (rule hd_dropWhile)
  have "?d = strip v @ rev (takeWhile py_isspace (rev ?d))"
    unfolding strip_def by (rule rev_dropWhile_split)
  then have "hd ?d = hd (strip v)" using assms by (metis hd_append2)
  with h L show ?thesis by simp
qed

lemma split_on_nonempty: "split_on c s \<noteq> []"
  by (induction s) (auto split: list.splits)

lemma concat_split_on: "concat (split_on c s) = filter (\<lambda>x. x \<noteq> c) s"
  by (induction s) (auto split: list.splits)

lemma length_split_on: "length (split_on c s) = Suc (count_list s c)"
  by (induction s) (auto split: list.splits)

lemma set_one_error:
  "(\<exists>e. set_one mo k v = Inl e) \<longleftrightarrow> (\<exists>s. v = Some s \<and> s \<noteq> [] \<and> k \<notin> fst ` set mo)"
  by (cases v) (auto simp: assign_value_def)

lemma set_module_options_returns_iff:
  "snd (set_module_options mo new_options) = None \<longleftrightarrow>
   (\<forall>k v. (k, Some v) \<in> set new_options \<and> v \<noteq> [] \<longrightarrow> k \<in> fst ` set mo)"
proof (induction new_options arbitrary: mo)
  case Nil
  then show ?case by simp
next
  case (Cons a new_options)
  obtain k v where a: "a = (k, v)" by (cases a)
  show ?case
  proof (cases "set_one mo k v")
    case (Inl e)
    then have "\<exists>s. v = Some s \<and> s \<noteq> [] \<and> k \<notin> fst ` set mo" using set_one_error by blast
    then show ?thesis using Inl by (auto simp: a)
  next
    case (Inr mo')
    have k: "fst ` set mo' = fst ` set mo" using set_one_keys [OF Inr] by (metis set_map)
    have "\<not> (\<exists>s. v = Some s \<and> s \<noteq> [] \<and> k \<notin> fst ` set mo)"
      using Inr set_one_error [of mo k v] by auto
    then show ?thesis using Cons.IH [of mo'] by (auto simp: a Inr k)
  qed
qed

lemma set_module_options_untouched:
  "(\<forall>v. (k, Some v) \<in> set new_options \<longrightarrow> v = []) \<Longrightarrow>
   map_of (fst (set_module_options mo new_options)) k = map_of mo k"
proof (induction new_options arbitrary: mo)
  case Nil
  then show ?case by simp
next
  case (Cons a new_options)
  obtain k' v' where a: "a = (k', v')" by (cases a)
  show ?case
  proof (cases "set_one mo k' v'")
    case (Inl e)
    then show ?thesis by (simp add: a)
  next
    case (Inr mo')
    from Cons.prems have p: "\<forall>v. (k, Some v) \<in> set new_options \<longrightarrow> v = []" by auto
    from Cons.prems have q: "k = k' \<longrightarrow> v' = None \<or> v' = Some []" by (cases v') (auto simp: a)
    show ?thesis
      using Cons.IH [OF p, of mo'] set_one_lookup [OF Inr, of k] q
      by (auto simp: a Inr)
  qed
qed

text \<open>
  Claim C6. Let a set call supply each key at most once. Then: a key whose input is
  absent, \<open>None\<close> or the empty string keeps its stored entry, whether or not the call
  raises; no key is added or removed; the call returns (raises no \<open>KeyError\<close>) exactly
  when every key with a non-empty input is a key of the store; and when it returns,
  every key with a non-empty input \<open>v\<close> has its value overwritten: by the list of the
  comma-separated pieces of \<open>v.strip()\<close> for the key \<open>group_ids\<close>, by the string
  \<open>v.strip()\<close> for any other key, with \<open>required\<close> and \<open>help\<close> as they were.
\<close>

theorem set_module_options_spec:
  assumes "distinct (map fst new_options)"
  shows "(\<forall>k. (\<forall>v. (k, Some v) \<in> set new_options \<longrightarrow> v = []) \<longrightarrow>
            map_of (fst (set_module_options mo new_options)) k = map_of mo k)
       \<and> map fst (fst (set_module_options mo new_options)) = map fst mo
       \<and> (snd (set_module_options mo new_options) = None \<longleftrightarrow>
            (\<forall>k v. (k, Some v) \<in> set new_options \<and> v \<noteq> [] \<longrightarrow> k \<in> fst ` set mo))
       \<and> (snd (set_module_options mo new_options) = None \<longrightarrow>
            (\<forall>k v. (k, Some v) \<in> set new_options \<and> v \<noteq> [] \<longrightarrow>
               (\<exists>e. map_of mo k = Some e \<and>
                    map_of (fst (set_module_options mo new_options)) k =
                      Some (e\<lparr>opt_value :=
                              if k = ''group_ids''
                              then PList (map PStr (split_on CHR '','' (strip v)))
                              else PStr (strip v)\<rparr>))))"
proof (intro conjI allI impI)
  fix k
  assume "\<forall>v. (k, Some v) \<in> set new_options \<longrightarrow> v = []"
  then show "map_of (fst (set_module_options mo new_options)) k = map_of mo k"
    by (rule set_module_options_untouched)
next
  show "map fst (fst (set_module_options mo new_options)) = map fst mo"
    by (rule set_module_options_keys)
next
  show "snd (set_module_options mo new_options) = None \<longleftrightarrow>
        (\<forall>k v. (k, Some v) \<in> set new_options \<and> v \<noteq> [] \<longrightarrow> k \<in> fst ` set mo)"
    by (rule set_module_options_returns_iff)
next
  fix k v
  assume r: "snd (set_module_options mo new_options) = None"
    and kv: "(k, Some v) \<in> set new_options \<and> v \<noteq> []"
  then have "k \<in> fst ` set mo" using set_module_options_returns_iff [of mo new_options] by blast
  then obtain e where e: "map_of mo k = Some e"
    by (metis domD dom_map_of_conv_image_fst)
  from kv assms have m: "map_of new_options k = Some (Some v)" by simp
  show "\<exists>e. map_of mo k = Some e \<and>
            map_of (fst (set_module_options mo new_options)) k =
              Some (e\<lparr>opt_value :=
                      if k = ''group_ids''
                      then PList (map PStr (split_on CHR '','' (strip v)))
                      else PStr (strip v)\<rparr>)"
    using set_module_options_lookup [OF assms r, of k] e m kv
    by (simp add: stored_def)
qed

text \<open>Theorem \<open>set_module_options_spec\<close> at a store with three options, one of them left
  alone by the call.\<close>

theorem set_module_options_spec_witness:
  "distinct (map fst [(''id'', Some '' u123 ''), (''group_ids'', Some ''g1,g2''), (''state'', None)])
   \<and> set_module_options
        [(''id'', \<lparr>opt_value = PStr ''old'', opt_required = True, opt_help = ''user''\<rparr>),
         (''group_ids'', \<lparr>opt_value = PNone, opt_required = False, opt_help = ''groups''\<rparr>),
         (''state'', \<lparr>opt_value = PStr ''keep'', opt_required = False, opt_help = ''state''\<rparr>)]
        [(''id'', Some '' u123 ''), (''group_ids'', Some ''g1,g2''), (''state'', None)]
     = ([(''id'', \<lparr>opt_value = PStr ''u123'', opt_required = True, opt_help = ''user''\<rparr>),
         (''group_ids'', \<lparr>opt_value = PList [PStr ''g1'', PStr ''g2''], opt_required = False,
            opt_help = ''groups''\<rparr>),
         (''state'', \<lparr>opt_value = PStr ''keep'', opt_required = False, opt_help = ''state''\<rparr>)],
        None)"
proof -
  have d: "distinct (map fst [(''id'', Some '' u123 ''), (''group_ids'', Some ''g1,g2''), (''state'', None :: string option)])"
    by simp
  note t = set_module_options_spec [OF d,
      of "[(''id'', \<lparr>opt_value = PStr ''old'', opt_required = True, opt_help = ''user''\<rparr>),
         (''group_ids'', \<lparr>opt_value = PNone, opt_required = False, opt_help = ''groups''\<rparr>),
         (''state'', \<lparr>opt_value = PStr ''keep'', opt_required = False, opt_help = ''state''\<rparr>)]"]
  show ?thesis
    using d t by (simp add: assign_value_def strip_def py_isspace_def)
qed

text \<open>
  Claim C10. In a set call that supplies each key at most once, and only keys of the
  store, a non-empty input \<open>v\<close> for \<open>k\<close> is stored as \<open>v.strip()\<close>, or for the key
  \<open>group_ids\<close> as the pieces of \<open>v.strip()\<close> between its commas. \<open>v.strip()\<close> is \<open>v\<close>
  without a whitespace prefix and a whitespace suffix, and neither begins nor ends
  with whitespace. The pieces are not stripped themselves: put together they are
  \<open>v.strip()\<close> without its commas, and there is one piece more than there are commas.
\<close>

theorem set_module_options_strips:
  assumes "distinct (map fst new_options)"
    and "fst ` set new_options \<subseteq> fst ` set mo"
    and "(k, Some v) \<in> set new_options"
    and "v \<noteq> []"
  shows "map_option opt_value (map_of (fst (set_module_options mo new_options)) k) =
           Some (if k = ''group_ids''
                 then PList (map PStr (split_on CHR '','' (strip v)))
                 else PStr (strip v))
       \<and> (\<exists>a b. v = a @ strip v @ b \<and> list_all py_isspace a \<and> list_all py_isspace b)
       \<and> (strip v \<noteq> [] \<longrightarrow> \<not> py_isspace (hd (strip v)) \<and> \<not> py_isspace (last (strip v)))
       \<and> concat (split_on CHR '','' (strip v)) = filter (\<lambda>c. c \<noteq> CHR '','') (strip v)
       \<and> length (split_on CHR '','' (strip v)) = Suc (count_list (strip v) CHR '','')"
proof -
  have r: "snd (set_module_options mo new_options) = None"
    using assms(2) by (rule set_module_options_returns)
  from assms(3) assms(2) have "k \<in> fst ` set mo" by force
  then obtain e where e: "map_of mo k = Some e"
    by (metis domD dom_map_of_conv_image_fst)
  from assms(1) assms(3) have m: "map_of new_options k = Some (Some v)" by simp
  have "map_option opt_value (map_of (fst (set_module_options mo new_options)) k) =
           Some (if k = ''group_ids''
                 then PList (map PStr (split_on CHR '','' (strip v)))
                 else PStr (strip v))"
    using set_module_options_lookup [OF assms(1) r, of k] e m assms(4)
    by (simp add: stored_def)
  then show ?thesis
    using strip_decomp [of v] strip_ends [of v] concat_split_on length_split_on by blast
qed

text \<open>Theorem \<open>set_module_options_strips\<close> at the input \<open>"  a, b "\<close> for \<open>group_ids\<close>: the
  second piece keeps its leading space.\<close>

theorem set_module_options_strips_witness:
  "map_option opt_value
     (map_of (fst (set_module_options
        [(''group_ids'', \<lparr>opt_value = PNone, opt_required = True, opt_help = ''groups''\<rparr>)]
        [(''group_ids'', Some ''  a, b '')])) ''group_ids'')
   = Some (PList [PStr ''a'', PStr '' b''])"
proof -
  have d: "distinct (map fst [(''group_ids'', Some ''  a, b '')])" by simp
  have s: "fst ` set [(''group_ids'', Some ''  a, b '')]
       \<subseteq> fst ` set [(''group_ids'', \<lparr>opt_value = PNone, opt_required = True, opt_help = ''groups''\<rparr>)]"
    by simp
  have i: "(''group_ids'', Some ''  a, b '') \<in> set [(''group_ids'', Some ''  a, b '')]" by simp
  have n: "''  a, b '' \<noteq> []" by simp
  have v: "strip ''  a, b '' = ''a, b''" by (simp add: strip_def py_isspace_def)
  from set_module_options_strips [OF d s i n] show ?thesis
    by (simp add: v)
qed

text \<open>
  Claim C8. On a store whose only option is the required \<open>id\<close>, \<open>set\<close> with
  \<open>id = "u123"\<close> stores \<open>"u123"\<close>, and \<open>check\<close> after \<open>reset\<close> then reports an error
  (returns \<open>True\<close>) with a message that names \<open>id\<close>.
\<close>

theorem set_reset_check_roundtrip:
  "set_module_options [(''id'', \<lparr>opt_value = v, opt_required = True, opt_help = h\<rparr>)]
       [(''id'', Some ''u123'')]
     = ([(''id'', \<lparr>opt_value = PStr ''u123'', opt_required = True, opt_help = h\<rparr>)], None)
   \<and> check_module_options
       (reset_module_options
          (fst (set_module_options
                  [(''id'', \<lparr>opt_value = v, opt_required = True, opt_help = h\<rparr>)]
                  [(''id'', Some ''u123'')]))) w
     = (Some True,
        secho [S ''[!] Unable to execute module. Required value not set: '', S ''id'',
               S ''. Set required value and try again''] ''red'' w)"
  by (simp add: assign_value_def strip_def py_isspace_def reset_module_options_def
      missing_option_msg_def dashed_def)

text \<open>
  Claim C2 fails on the code. The comment in \<open>check_module_options\<close> reads "Check for
  any required options that are missing", but the \<open>else\<close> branch returns inside the
  loop: a store whose first option is optional is accepted, although a later
  required option is unset.
\<close>

theorem check_module_options_misses_later_option:
  "check_module_options
     [(''state'', \<lparr>opt_value = PNone, opt_required = False, opt_help = ''New state''\<rparr>),
      (''id'', \<lparr>opt_value = PNone, opt_required = True, opt_help = ''The unique ID''\<rparr>)] w
   = (Some False, w)"
  by simp

text \<open>Only the first item of the store is looked at.\<close>

lemma check_module_options_first_item:
  "check_module_options ((k, v) # rest) w = check_module_options [(k, v)] w"
  by simp

section \<open>Properties of the harvests\<close>

lemma index_event_returns:
  "index_event sink module event_type event w =
     (Inr (), indexed_world sink module event_type event w)"
  by (simp add: indexed_world_def index_event_def Let_def split: option.splits)

lemma http_indexed_world [simp]:
  "http (indexed_world sink module event_type event w) = http w"
  by (simp add: indexed_world_def index_event_def Let_def secho_def logger_def split: option.splits)

lemma http_effects [simp]:
  "http (echo m w) = http w"
  "http (secho m fg w) = http w"
  "http (logger level m w) = http w"
  "http (sleep n w) = http w"
  by (simp_all add: echo_def secho_def logger_def sleep_def)

lemma console_effects [simp]:
  "console (echo m w) = console w @ [(m, None)]"
  "console (secho m fg w) = console w @ [(m, Some fg)]"
  "console (logger level m w) = console w"
  "console (sleep n w) = console w"
  by (simp_all add: echo_def secho_def logger_def sleep_def)

lemma logfile_effects [simp]:
  "logfile (echo m w) = logfile w"
  "logfile (secho m fg w) = logfile w"
  "logfile (logger level m w) = logfile w @ [(level, m)]"
  "logfile (sleep n w) = logfile w"
  by (simp_all add: echo_def secho_def logger_def sleep_def)

lemma logfile_indexed_world [simp]:
  "x \<in> set (logfile w) \<Longrightarrow> x \<in> set (logfile (indexed_world sink module event_type event w))"
  by (simp add: indexed_world_def index_event_def Let_def split: option.splits)

lemma andthen_Inr: "fst (m w) = Inr x \<Longrightarrow> andthen m f w = f x (snd (m w))"
  by (cases "m w") (simp add: andthen_def)

lemma andthen_Inl: "fst (m w) = Inl e \<Longrightarrow> andthen m f w = (Inl e, snd (m w))"
  by (cases "m w") (simp add: andthen_def)

lemmas run_simps =
  andthen_def ret_def raise_def lift_def effect_def index_event_returns Let_def
  try_send_def send_def attr_ok_def response_json_def except_block_def

lemma http_error_msg_dict:
  "json_body r = Some (PDict kvs) \<Longrightarrow> \<exists>m. http_error_msg head r w = (Inr m, w)"
  by (simp add: http_error_msg_def run_simps py_get_def)







lemma calmD: "calm m \<Longrightarrow> \<exists>x w'. m w = (Inr x, w') \<and> http w' = http w"
  unfolding calm_def by (metis prod.collapse)

lemma calm_andthen: "calm m \<Longrightarrow> (\<And>x. calm (f x)) \<Longrightarrow> calm (andthen m f)"
  unfolding calm_def andthen_def
  by (auto split: prod.splits sum.splits) (metis fst_conv snd_conv sum.distinct(1) sum.inject(2))+

lemma calm_ret: "calm (ret x)"
  by (simp add: calm_def ret_def)

lemma calm_effect: "(\<And>w. http (f w) = http w) \<Longrightarrow> calm (effect f)"
  by (simp add: calm_def effect_def)

lemma calm_index_event: "calm (index_event sink module event_type event)"
  by (simp add: calm_def index_event_returns)


lemma calm_steps: "(\<And>m. m \<in> set ms \<Longrightarrow> calm m) \<Longrightarrow> calm (steps ms)"
  by (induction ms) (auto intro: calm_ret calm_andthen)

lemma calm_report:
  "(\<And>w. http (f w) = http w) \<Longrightarrow> (\<And>w. http (g w) = http w) \<Longrightarrow>
   calm (steps [effect f, index_event sink module event_type event, effect g])"
  by (rule calm_steps) (auto intro: calm_effect calm_index_event)

lemma calm_lift: "calm (lift (Inr x))"
  by (simp add: calm_def lift_def)
















text \<open>Where the user has the items saved and the file cannot be opened, the function
  raises after the loop, and the caller receives no list.\<close>

lemma list_apps_raises_when_file_cannot_be_opened:
  "map_option fst (list_apps (yes_host\<lparr>can_open := \<lambda>file_path. False\<rparr>) (tenant two_pages) 2
     empty_world) = Some (Inl OSError)"
  by (simp add: list_apps_def harvest_def harvest_page_def list_apps_tail_def write_json_file_def
      print_app_object_def py_get_def numeral_2_eq_2
      tenant_def two_pages_def page_response_def empty_world_def yes_host_def item_def run_simps)




section \<open>Properties of the HTTP calls, the modules and the event logger\<close>

text \<open>
  Claim C3 fails on the code. Each function catches the exception of the session,
  logs it, prints \<open>URL_OR_API_TOKEN_ERROR\<close> and sets \<open>response = None\<close>; the next
  statement reads \<open>response.ok\<close>, so an \<open>AttributeError\<close> leaves the function. This
  holds for every context whose session raises, here for \<open>get_current_user\<close>,
  \<open>get_zone_object\<close>, \<open>rename_zone\<close> and \<open>list_apps\<close>.
\<close>

theorem transport_exception_propagates:
  "fst (get_current_user (c\<lparr>session := \<lambda>hist req. Raises e\<rparr>) w) = Inl AttributeError
   \<and> fst (get_zone_object render (c\<lparr>session := \<lambda>hist req. Raises e\<rparr>) zone_id w) =
       Inl AttributeError
   \<and> fst (rename_zone render (c\<lparr>session := \<lambda>hist req. Raises e\<rparr>)
            (PDict [(''id'', zid), (''name'', old), (''type'', ty)]) old new w) = Inl AttributeError
   \<and> map_option fst (list_apps h (c\<lparr>session := \<lambda>hist req. Raises e\<rparr>) (Suc fuel) w) =
       Some (Inl AttributeError)"
  by (simp add: get_current_user_def get_zone_object_def rename_zone_def list_apps_def harvest_def
      harvest_page_def run_simps py_get_def)

text \<open>
  Claim C7. The option store of modify_zone and of get_user has the one option
  \<open>id\<close>, which is required. When its value is unset (\<open>None\<close>, or empty), \<open>execute\<close> of
  either module prints the validation message that names \<open>id\<close> and returns; the
  requests sent are those sent before the call, so no HTTP request is made.
\<close>

theorem execute_checks_before_any_request:
  assumes "\<not> py_truthy v"
  shows "modify_zone_execute render c
           [(''id'', \<lparr>opt_value = v, opt_required = True, opt_help = hlp\<rparr>)] w =
           (Inr (), secho (missing_option_msg ''id'') ''red'' w)
       \<and> get_user_execute render c
           [(''id'', \<lparr>opt_value = v, opt_required = True, opt_help = hlp\<rparr>)] w =
           (Inr (), secho (missing_option_msg ''id'') ''red'' w)
       \<and> http (secho (missing_option_msg ''id'') ''red'' w) = http w"
  using assms by (simp add: modify_zone_execute_def get_user_execute_def)

text \<open>Theorem \<open>execute_checks_before_any_request\<close> at the options that the two modules
  declare, whose value is \<open>None\<close>.\<close>

theorem execute_checks_before_any_request_witness:
  "modify_zone_execute (\<lambda>v. []) (tenant two_pages) modify_zone_MODULE_OPTIONS empty_world =
     (Inr (), secho (missing_option_msg ''id'') ''red'' empty_world)
   \<and> get_user_execute (\<lambda>v. []) (tenant two_pages) get_user_MODULE_OPTIONS empty_world =
     (Inr (), secho (missing_option_msg ''id'') ''red'' empty_world)
   \<and> http (secho (missing_option_msg ''id'') ''red'' empty_world) = []"
proof -
  have n: "\<not> py_truthy PNone" by simp
  have e: "http empty_world = []" by (simp add: empty_world_def)
  from execute_checks_before_any_request [OF n, of "\<lambda>v. []" "tenant two_pages"
      "''The unique ID for the network zone''" empty_world]
    execute_checks_before_any_request [OF n, of "\<lambda>v. []" "tenant two_pages"
      "''The unique ID for the user''" empty_world]
  show ?thesis
    unfolding modify_zone_MODULE_OPTIONS_def get_user_MODULE_OPTIONS_def e by blast
qed

text \<open>\<open>set\<close> and \<open>reset\<close> keep that shape of the store: they change the value of \<open>id\<close>
  only.\<close>

lemma assign_value_id_store:
  "assign_value [(''id'', e)] k x = Inr mo' \<Longrightarrow> mo' = [(''id'', e\<lparr>opt_value := x\<rparr>)]"
  by (auto simp: assign_value_def split: if_splits)

lemma set_one_id_store:
  assumes "set_one [(''id'', e)] k v = Inr mo'"
  shows "\<exists>x. mo' = [(''id'', e\<lparr>opt_value := x\<rparr>)]"
proof (cases v)
  case None
  with assms have "mo' = [(''id'', e\<lparr>opt_value := opt_value e\<rparr>)]" by simp
  then show ?thesis ..
next
  case (Some s)
  show ?thesis
  proof (cases "s = []")
    case True
    with assms Some have "mo' = [(''id'', e\<lparr>opt_value := opt_value e\<rparr>)]" by simp
    then show ?thesis ..
  next
    case False
    with assms Some show ?thesis
      by (cases "k = ''group_ids''") (auto dest: assign_value_id_store)
  qed
qed

lemma set_module_options_id_store:
  "\<exists>x. fst (set_module_options [(''id'', e)] new_options) = [(''id'', e\<lparr>opt_value := x\<rparr>)]"
proof (induction new_options arbitrary: e)
  case Nil
  have "fst (set_module_options [(''id'', e)] []) = [(''id'', e\<lparr>opt_value := opt_value e\<rparr>)]"
    by simp
  then show ?case ..
next
  case (Cons a new_options)
  obtain k v where a: "a = (k, v)" by (cases a)
  show ?case
  proof (cases "set_one [(''id'', e)] k v")
    case (Inl err)
    then have "fst (set_module_options [(''id'', e)] (a # new_options)) =
        [(''id'', e\<lparr>opt_value := opt_value e\<rparr>)]"
      by (simp add: a)
    then show ?thesis ..
  next
    case (Inr mo')
    from set_one_id_store [OF Inr] obtain x1 where m: "mo' = [(''id'', e\<lparr>opt_value := x1\<rparr>)]" ..
    from Cons.IH [of "e\<lparr>opt_value := x1\<rparr>"] obtain x where
      "fst (set_module_options [(''id'', e\<lparr>opt_value := x1\<rparr>)] new_options) =
         [(''id'', e\<lparr>opt_value := x1, opt_value := x\<rparr>)]" ..
    then have "fst (set_module_options [(''id'', e)] (a # new_options)) =
         [(''id'', e\<lparr>opt_value := x\<rparr>)]"
      by (simp add: a Inr m)
    then show ?thesis ..
  qed
qed

lemma reset_module_options_id_store:
  "reset_module_options [(''id'', e)] = [(''id'', e\<lparr>opt_value := PNone\<rparr>)]"
  by (simp add: reset_module_options_def)

text \<open>
  Two actions agree when, from worlds with the same requests sent, they end with the
  same result and again the same requests sent. The rules below build agreement of
  compound actions from agreement of their parts; two calls of \<open>index_event\<close> agree
  whatever their sinks are.
\<close>

lemma agreeI:
  "(\<And>w1 w2. http w1 = http w2 \<Longrightarrow>
      fst (m1 w1) = fst (m2 w2) \<and> http (snd (m1 w1)) = http (snd (m2 w2))) \<Longrightarrow> agree m1 m2"
  by (simp add: agree_def)

lemma agreeD:
  "agree m1 m2 \<Longrightarrow> http w1 = http w2 \<Longrightarrow>
     fst (m1 w1) = fst (m2 w2) \<and> http (snd (m1 w1)) = http (snd (m2 w2))"
  by (simp add: agree_def)

lemma agree_ret: "agree (ret x) (ret x)"
  by (simp add: agree_def ret_def)

lemma agree_raise: "agree (raise e) (raise e)"
  by (simp add: agree_def raise_def)

lemma agree_lift: "agree (lift r) (lift r)"
  by (simp add: agree_def lift_def)

lemma agree_effect:
  "(\<And>w. http (f w) = http w) \<Longrightarrow> (\<And>w. http (g w) = http w) \<Longrightarrow> agree (effect f) (effect g)"
  by (simp add: agree_def effect_def)

lemma agree_index_event:
  "agree (index_event sink1 module1 type1 event1) (index_event sink2 module2 type2 event2)"
  by (simp add: agree_def index_event_returns)

lemma agree_send: "session c1 = session c2 \<Longrightarrow> agree (send c1 req) (send c2 req)"
  by (simp add: agree_def send_def)

lemma agree_andthen:
  assumes "agree m1 m2" and "\<And>x. agree (f1 x) (f2 x)"
  shows "agree (andthen m1 f1) (andthen m2 f2)"
proof (rule agreeI)
  fix w1 w2 :: world
  assume h: "http w1 = http w2"
  from agreeD [OF assms(1) h]
  have r: "fst (m1 w1) = fst (m2 w2)" and s: "http (snd (m1 w1)) = http (snd (m2 w2))"
    by simp_all
  show "fst (andthen m1 f1 w1) = fst (andthen m2 f2 w2)
      \<and> http (snd (andthen m1 f1 w1)) = http (snd (andthen m2 f2 w2))"
  proof (cases "fst (m1 w1)")
    case (Inl e)
    with r have "fst (m2 w2) = Inl e" by simp
    with Inl s show ?thesis by (simp add: andthen_Inl)
  next
    case (Inr x)
    with r have "fst (m2 w2) = Inr x" by simp
    with Inr agreeD [OF assms(2) s, of x] show ?thesis by (simp add: andthen_Inr)
  qed
qed

lemma agree_steps_nil: "agree (steps []) (steps [])"
  by (simp add: agree_ret)

lemma agree_steps_cons:
  "agree m1 m2 \<Longrightarrow> agree (steps ms1) (steps ms2) \<Longrightarrow> agree (steps (m1 # ms1)) (steps (m2 # ms2))"
  by (simp add: agree_andthen)

lemma agree_foreach: "(\<And>x. agree (f x) (g x)) \<Longrightarrow> agree (foreach f xs) (foreach g xs)"
  by (induction xs) (simp_all add: agree_ret agree_andthen)

lemma agree_if:
  "(b \<Longrightarrow> agree m1 m2) \<Longrightarrow> (\<not> b \<Longrightarrow> agree n1 n2) \<Longrightarrow>
   agree (if b then m1 else n1) (if b then m2 else n2)"
  by simp

lemma agree_case_option:
  "agree m1 m2 \<Longrightarrow> (\<And>x. agree (f1 x) (f2 x)) \<Longrightarrow>
   agree (case v of None \<Rightarrow> m1 | Some x \<Rightarrow> f1 x) (case v of None \<Rightarrow> m2 | Some x \<Rightarrow> f2 x)"
  by (cases v) simp_all

lemma agree_case_outcome:
  "(\<And>e. agree (f1 e) (f2 e)) \<Longrightarrow> (\<And>r. agree (g1 r) (g2 r)) \<Longrightarrow>
   agree (case v of Raises e \<Rightarrow> f1 e | Responds r \<Rightarrow> g1 r)
         (case v of Raises e \<Rightarrow> f2 e | Responds r \<Rightarrow> g2 r)"
  by (cases v) simp_all

lemmas agree_intros =
  agree_ret agree_raise agree_lift agree_index_event agree_andthen agree_steps_nil
  agree_steps_cons agree_foreach agree_if agree_case_option agree_case_outcome

lemma agree_attr_ok: "agree (attr_ok x) (attr_ok x)"
  by (cases x) (simp_all add: attr_ok_def agree_ret agree_raise)

lemma agree_response_json: "agree (response_json r) (response_json r)"
  by (cases "json_body r") (simp_all add: response_json_def agree_ret agree_raise)

lemma agree_http_error_msg: "agree (http_error_msg head r) (http_error_msg head r)"
  unfolding http_error_msg_def
  by (intro agree_intros agree_response_json)

lemma agree_except_block:
  "agree (except_block c1 module e event) (except_block c2 module e event)"
  unfolding except_block_def
  by (intro agree_intros agree_effect) simp_all

lemma agree_try_send:
  "session c1 = session c2 \<Longrightarrow> agree (try_send c1 module req) (try_send c2 module req)"
  unfolding try_send_def
  by (intro agree_intros agree_send agree_except_block)

lemma agree_report:
  "(\<And>w. http (f w) = http w) \<Longrightarrow> (\<And>w. http (g w) = http w) \<Longrightarrow>
   agree (steps [effect f, index_event sink1 module event_type event, effect g])
         (steps [effect f, index_event sink2 module event_type event, effect g])"
  by (intro agree_intros agree_effect)

lemma agree_print_zone_object: "agree (print_zone_object zone) (print_zone_object zone)"
  unfolding print_zone_object_def
  by (intro agree_intros agree_effect) simp_all

lemma agree_print_user_info: "agree (print_user_info user) (print_user_info user)"
  unfolding print_user_info_def
  by (intro agree_intros agree_effect) simp_all

lemma agree_print_group: "agree (print_group grp) (print_group grp)"
  unfolding print_group_def
  by (intro agree_intros agree_effect) simp_all

lemma agree_print_group_information:
  "agree (print_group_information groups) (print_group_information groups)"
  unfolding print_group_information_def
  by (intro agree_intros agree_print_group)

lemma get_request_es [simp]: "get_request (c\<lparr>es := s\<rparr>) url = get_request c url"
  by (simp add: get_request_def std_headers_def)

lemma put_request_es [simp]: "put_request (c\<lparr>es := s\<rparr>) url body = put_request c url body"
  by (simp add: put_request_def std_headers_def)

lemma agree_Let: "agree (f1 v) (f2 v) \<Longrightarrow> agree (Let v f1) (Let v f2)"
  by simp

lemmas agree_calls =
  agree_Let agree_intros agree_try_send agree_send agree_attr_ok agree_effect agree_response_json
  agree_http_error_msg agree_except_block agree_print_zone_object agree_print_user_info
  agree_print_group_information

lemma agree_get_current_user:
  "agree (get_current_user (c\<lparr>es := s1\<rparr>)) (get_current_user (c\<lparr>es := s2\<rparr>))"
  unfolding get_current_user_def
  by (simp add: Let_def del: steps.simps) (intro agree_calls; simp)

lemma agree_get_zone_object:
  "agree (get_zone_object render (c\<lparr>es := s1\<rparr>) zone_id)
         (get_zone_object render (c\<lparr>es := s2\<rparr>) zone_id)"
  unfolding get_zone_object_def
  by (simp add: Let_def del: steps.simps) (intro agree_calls; simp)

lemma agree_get_user_object:
  "agree (get_user_object render (c\<lparr>es := s1\<rparr>) user_id)
         (get_user_object render (c\<lparr>es := s2\<rparr>) user_id)"
  unfolding get_user_object_def
  by (simp add: Let_def del: steps.simps) (intro agree_calls; simp)

lemma agree_get_user_groups:
  "agree (get_user_groups render (c\<lparr>es := s1\<rparr>) user_id)
         (get_user_groups render (c\<lparr>es := s2\<rparr>) user_id)"
  unfolding get_user_groups_def
  by (simp add: Let_def del: steps.simps) (intro agree_calls; simp)

lemma agree_rename_zone:
  "agree (rename_zone render (c\<lparr>es := s1\<rparr>) zone original_name new_name)
         (rename_zone render (c\<lparr>es := s2\<rparr>) zone original_name new_name)"
  unfolding rename_zone_def
  by (simp add: Let_def del: steps.simps) (intro agree_calls agree_get_zone_object; simp)

lemma check_module_options_flag:
  "fst (check_module_options mo w1) = fst (check_module_options mo w2)"
  by (cases mo) auto

lemma http_check_module_options [simp]:
  "http (snd (check_module_options mo w)) = http w"
  by (cases mo) auto

lemma agree_after_check:
  assumes "agree b1 b2"
  shows "agree (\<lambda>w. case check_module_options mo w of
                      (error, w') \<Rightarrow> if error = Some True then (Inr (), w') else b1 w')
               (\<lambda>w. case check_module_options mo w of
                      (error, w') \<Rightarrow> if error = Some True then (Inr (), w') else b2 w')"
proof (rule agreeI)
  fix w1 w2 :: world
  assume h: "http w1 = http w2"
  obtain e1 v1 where c1: "check_module_options mo w1 = (e1, v1)" by (cases "check_module_options mo w1")
  obtain e2 v2 where c2: "check_module_options mo w2 = (e2, v2)" by (cases "check_module_options mo w2")
  from check_module_options_flag [of mo w1 w2] c1 c2 have e: "e1 = e2" by simp
  from http_check_module_options [of mo w1] http_check_module_options [of mo w2] c1 c2 h
  have v: "http v1 = http v2" by simp
  from agreeD [OF assms v] e v
  show "fst (case check_module_options mo w1 of
               (error, w') \<Rightarrow> if error = Some True then (Inr (), w') else b1 w') =
        fst (case check_module_options mo w2 of
               (error, w') \<Rightarrow> if error = Some True then (Inr (), w') else b2 w')
      \<and> http (snd (case check_module_options mo w1 of
               (error, w') \<Rightarrow> if error = Some True then (Inr (), w') else b1 w')) =
        http (snd (case check_module_options mo w2 of
               (error, w') \<Rightarrow> if error = Some True then (Inr (), w') else b2 w'))"
    by (simp add: c1 c2)
qed

lemma agree_modify_zone_execute:
  "agree (modify_zone_execute render (c\<lparr>es := s1\<rparr>) mo)
         (modify_zone_execute render (c\<lparr>es := s2\<rparr>) mo)"
  unfolding modify_zone_execute_def [abs_def]
  by (rule agree_after_check) (intro agree_calls agree_get_zone_object agree_rename_zone)

lemma agree_get_user_execute:
  "agree (get_user_execute render (c\<lparr>es := s1\<rparr>) mo)
         (get_user_execute render (c\<lparr>es := s2\<rparr>) mo)"
  unfolding get_user_execute_def [abs_def]
  by (rule agree_after_check)
     (simp, intro agree_calls agree_get_user_object agree_get_user_groups; simp)

lemma agree_print_app_object: "agree (print_app_object app) (print_app_object app)"
  unfolding print_app_object_def
  by (intro agree_intros agree_effect) simp_all

lemma agree_write_json_file:
  "agree (write_json_file h file_name results) (write_json_file h file_name results)"
  unfolding write_json_file_def
  by (intro agree_calls) (simp_all add: secho_def)

lemma agree_harvest_page:
  "agree (harvest_page (c\<lparr>es := s1\<rparr>) noun url harvested)
         (harvest_page (c\<lparr>es := s2\<rparr>) noun url harvested)"
  unfolding harvest_page_def
  by (simp add: Let_def del: steps.simps) (intro agree_calls; simp)

lemmas agree_tail =
  agree_calls agree_print_app_object agree_write_json_file

lemma agree_list_users_tail:
  "agree (list_users_tail h (c\<lparr>es := s1\<rparr>) xs) (list_users_tail h (c\<lparr>es := s2\<rparr>) xs)"
  unfolding list_users_tail_def ctx.simps Let_def
  apply (intro agree_calls agree_print_app_object)
                 apply simp_all
  apply (rule agree_write_json_file)
  done

lemma agree_list_groups_tail:
  "agree (list_groups_tail h (c\<lparr>es := s1\<rparr>) xs) (list_groups_tail h (c\<lparr>es := s2\<rparr>) xs)"
  unfolding list_groups_tail_def ctx.simps Let_def
  apply (intro agree_calls agree_print_app_object)
                 apply simp_all
  apply (rule agree_write_json_file)
  done

lemma agree_list_zones_tail:
  "agree (list_zones_tail h (c\<lparr>es := s1\<rparr>) xs) (list_zones_tail h (c\<lparr>es := s2\<rparr>) xs)"
  unfolding list_zones_tail_def ctx.simps Let_def
  apply (intro agree_calls agree_print_app_object)
                 apply simp_all
  apply (rule agree_write_json_file)
  done

lemma agree_list_apps_tail:
  "agree (list_apps_tail h (c\<lparr>es := s1\<rparr>) xs) (list_apps_tail h (c\<lparr>es := s2\<rparr>) xs)"
  unfolding list_apps_tail_def ctx.simps Let_def
  apply (intro agree_calls agree_print_app_object)
                 apply simp_all
  apply (rule agree_write_json_file)
  done

lemma same_run_harvest_loop:
  "http w1 = http w2 \<Longrightarrow>
   same_run (harvest_loop fuel (c\<lparr>es := s1\<rparr>) noun url harvested w1)
            (harvest_loop fuel (c\<lparr>es := s2\<rparr>) noun url harvested w2)"
proof (induction fuel arbitrary: url harvested w1 w2)
  case 0
  show ?case by (simp add: same_run_def)
next
  case (Suc fuel)
  let ?r1 = "harvest_page (c\<lparr>es := s1\<rparr>) noun url harvested w1"
  let ?r2 = "harvest_page (c\<lparr>es := s2\<rparr>) noun url harvested w2"
  from agreeD [OF agree_harvest_page [of s1 c noun url harvested s2] Suc.prems]
  have f: "fst ?r2 = fst ?r1" and v: "http (snd ?r1) = http (snd ?r2)" by simp_all
  obtain x1 v1 where p1: "?r1 = (x1, v1)" by (cases ?r1)
  obtain v2 where p2: "?r2 = (x1, v2)" using f p1 by (cases ?r2) simp
  from v p1 p2 have v: "http v1 = http v2" by simp
  show ?case
  proof (cases x1)
    case (Inl e)
    with v show ?thesis by (simp add: p1 p2 same_run_def)
  next
    case (Inr res)
    show ?thesis
    proof (cases res)
      case Abort
      with Inr v show ?thesis by (simp add: p1 p2 same_run_def)
    next
      case (Done xs)
      with Inr v show ?thesis by (simp add: p1 p2 same_run_def)
    next
      case (Next u xs)
      with Inr v Suc.IH [OF v, of u xs] show ?thesis
        by (simp add: p1 p2) (simp add: same_run_def)
    qed
  qed
qed

lemma same_run_harvest:
  assumes "\<And>xs. agree (tail1 xs) (tail2 xs)" and "http w1 = http w2"
  shows "same_run (harvest fuel (c\<lparr>es := s1\<rparr>) noun url tail1 w1)
                  (harvest fuel (c\<lparr>es := s2\<rparr>) noun url tail2 w2)"
proof -
  let ?l1 = "harvest_loop fuel (c\<lparr>es := s1\<rparr>) noun url [] w1"
  let ?l2 = "harvest_loop fuel (c\<lparr>es := s2\<rparr>) noun url [] w2"
  have s: "same_run ?l1 ?l2" using assms(2) by (rule same_run_harvest_loop)
  show ?thesis
  proof (cases ?l1)
    case None
    with s have "?l2 = None" by (simp add: same_run_def)
    with None show ?thesis by (simp add: harvest_def same_run_def)
  next
    case (Some p1)
    obtain x1 v1 where p1: "p1 = (x1, v1)" by (cases p1)
    have "?l2 \<noteq> None"
    proof
      assume "?l2 = None"
      with s Some show False by (simp add: same_run_def)
    qed
    then obtain q where l2': "?l2 = Some q" by blast
    from s Some l2' p1 have "fst q = x1" and v: "http v1 = http (snd q)"
      by (simp_all add: same_run_def)
    then obtain v2 where l2: "?l2 = Some (x1, v2)" and v: "http v1 = http v2"
      using l2' by (cases q) simp
    show ?thesis
    proof (cases x1)
      case (Inl e)
      with v show ?thesis by (simp add: harvest_def Some l2 p1 same_run_def)
    next
      case (Inr res)
      show ?thesis
      proof (cases res)
        case None
        with Inr v show ?thesis by (simp add: harvest_def Some l2 p1 same_run_def)
      next
        case (Some xs)
        with Inr v agreeD [OF assms(1) v, of xs] \<open>?l1 = Some p1\<close> show ?thesis
          by (simp add: harvest_def l2 p1 same_run_def)
      qed
    qed
  qed
qed

lemma same_run_list_users:
  "same_run (list_users h (c\<lparr>es := s1\<rparr>) fuel w) (list_users h (c\<lparr>es := s2\<rparr>) fuel w)"
  by (simp add: list_users_def same_run_harvest [OF agree_list_users_tail])

lemma same_run_list_groups:
  "same_run (list_groups h (c\<lparr>es := s1\<rparr>) fuel w) (list_groups h (c\<lparr>es := s2\<rparr>) fuel w)"
  by (simp add: list_groups_def same_run_harvest [OF agree_list_groups_tail])

lemma same_run_list_zones:
  "same_run (list_zones h (c\<lparr>es := s1\<rparr>) fuel w) (list_zones h (c\<lparr>es := s2\<rparr>) fuel w)"
  by (simp add: list_zones_def same_run_harvest [OF agree_list_zones_tail])

lemma same_run_list_apps:
  "same_run (list_apps h (c\<lparr>es := s1\<rparr>) fuel w) (list_apps h (c\<lparr>es := s2\<rparr>) fuel w)"
  by (simp add: list_apps_def same_run_harvest [OF agree_list_apps_tail])

text \<open>
  Claim C9. Without a sink \<open>index_event\<close> changes nothing. With any sink it returns
  normally and sends no request; when \<open>es.index\<close> raises, the exception is logged and a
  warning is printed. Callers do not depend on the sink: run with any two sinks (one
  that fails and one that succeeds, or none), \<open>get_current_user\<close> and \<open>execute\<close> of
  modify_zone and get_user end with the same result and the same requests, and so do
  the four harvests for the same fuel.
\<close>

theorem index_event_is_best_effort:
  "index_event None module event_type event w = (Inr (), w)
   \<and> fst (index_event sink module event_type event w) = Inr ()
   \<and> http (snd (index_event sink module event_type event w)) = http w
   \<and> (client (indexed w)
         \<lparr>doc_module = module, doc_event_type = event_type, doc_event = event\<rparr> = Some e \<longrightarrow>
       index_event (Some client) module event_type event w =
         (Inr (),
          secho [S ''[!] Error indexing event in Elasticsearch. Review dorothy.log for further information'']
            ''red'' (logger ''ERROR'' [S e] w)))
   \<and> agree (get_current_user (c\<lparr>es := s1\<rparr>)) (get_current_user (c\<lparr>es := s2\<rparr>))
   \<and> agree (modify_zone_execute render (c\<lparr>es := s1\<rparr>) mo)
            (modify_zone_execute render (c\<lparr>es := s2\<rparr>) mo)
   \<and> agree (get_user_execute render (c\<lparr>es := s1\<rparr>) mo)
            (get_user_execute render (c\<lparr>es := s2\<rparr>) mo)
   \<and> same_run (list_users h (c\<lparr>es := s1\<rparr>) fuel w) (list_users h (c\<lparr>es := s2\<rparr>) fuel w)
   \<and> same_run (list_groups h (c\<lparr>es := s1\<rparr>) fuel w) (list_groups h (c\<lparr>es := s2\<rparr>) fuel w)
   \<and> same_run (list_zones h (c\<lparr>es := s1\<rparr>) fuel w) (list_zones h (c\<lparr>es := s2\<rparr>) fuel w)
   \<and> same_run (list_apps h (c\<lparr>es := s1\<rparr>) fuel w) (list_apps h (c\<lparr>es := s2\<rparr>) fuel w)"
proof (intro conjI impI)
  show "index_event None module event_type event w = (Inr (), w)"
    by (simp add: index_event_def)
  show "fst (index_event sink module event_type event w) = Inr ()"
    by (simp add: index_event_returns)
  show "http (snd (index_event sink module event_type event w)) = http w"
    by (simp add: index_event_returns)
  show "index_event (Some client) module event_type event w =
         (Inr (),
          secho [S ''[!] Error indexing event in Elasticsearch. Review dorothy.log for further information'']
            ''red'' (logger ''ERROR'' [S e] w))"
    if "client (indexed w)
         \<lparr>doc_module = module, doc_event_type = event_type, doc_event = event\<rparr> = Some e"
    using that by (simp add: index_event_def)
qed (rule agree_get_current_user agree_modify_zone_execute agree_get_user_execute
      same_run_list_users same_run_list_groups same_run_list_zones same_run_list_apps)+

text \<open>Theorem \<open>index_event_is_best_effort\<close> at a sink that always raises.\<close>

theorem index_event_is_best_effort_witness:
  "index_event (Some broken_sink) ''dorothy.core'' ''INFO'' [S ''Retrieved zone''] empty_world =
     (Inr (),
      secho [S ''[!] Error indexing event in Elasticsearch. Review dorothy.log for further information'']
        ''red'' (logger ''ERROR'' [S ''ConnectionError''] empty_world))
   \<and> fst (get_current_user ((tenant two_pages)\<lparr>es := Some broken_sink\<rparr>) empty_world) =
     fst (get_current_user ((tenant two_pages)\<lparr>es := None\<rparr>) empty_world)"
proof -
  note t = index_event_is_best_effort [where client = broken_sink and w = empty_world
      and e = "''ConnectionError''" and module = "''dorothy.core''" and event_type = "''INFO''"
      and event = "[S ''Retrieved zone'']" and c = "tenant two_pages"
      and ?s1.0 = "Some broken_sink" and ?s2.0 = None]
  have b: "broken_sink (indexed empty_world)
     \<lparr>doc_module = ''dorothy.core'', doc_event_type = ''INFO'', doc_event = [S ''Retrieved zone'']\<rparr>
     = Some ''ConnectionError''"
    by (simp add: broken_sink_def)
  from t b have 1: "index_event (Some broken_sink) ''dorothy.core'' ''INFO'' [S ''Retrieved zone''] empty_world =
     (Inr (),
      secho [S ''[!] Error indexing event in Elasticsearch. Review dorothy.log for further information'']
        ''red'' (logger ''ERROR'' [S ''ConnectionError''] empty_world))"
    by blast
  from t have "agree (get_current_user ((tenant two_pages)\<lparr>es := Some broken_sink\<rparr>))
                     (get_current_user ((tenant two_pages)\<lparr>es := None\<rparr>))"
    by blast
  from agreeD [OF this, of empty_world empty_world] 1 show ?thesis by simp
qed

subsection \<open>modify_zone: rename and revert\<close>

text \<open>What \<open>get_zone_object\<close> and \<open>rename_zone\<close> send and return, case by case of the
  answer of the session.\<close>

lemma quietD: "quiet m \<Longrightarrow> http (snd (m w)) = http w"
  by (simp add: quiet_def)

lemma quiet_ret: "quiet (ret x)"
  by (simp add: quiet_def ret_def)

lemma quiet_raise: "quiet (raise e)"
  by (simp add: quiet_def raise_def)

lemma quiet_lift: "quiet (lift r)"
  by (cases r) (simp_all add: quiet_def lift_def)

lemma quiet_effect: "(\<And>w. http (f w) = http w) \<Longrightarrow> quiet (effect f)"
  by (simp add: quiet_def effect_def)

lemma quiet_index_event: "quiet (index_event sink module event_type event)"
  by (simp add: quiet_def index_event_returns)

lemma quiet_andthen:
  assumes "quiet m" and "\<And>x. quiet (f x)"
  shows "quiet (andthen m f)"
  unfolding quiet_def
proof
  fix w
  show "http (snd (andthen m f w)) = http w"
  proof (cases "fst (m w)")
    case (Inl e)
    then show ?thesis using quietD [OF assms(1), of w] by (simp add: andthen_Inl)
  next
    case (Inr x)
    then show ?thesis
      using quietD [OF assms(1), of w] quietD [OF assms(2), of x "snd (m w)"]
      by (simp add: andthen_Inr)
  qed
qed

lemma quiet_steps_nil: "quiet (steps [])"
  by (simp add: quiet_ret)

lemma quiet_steps_cons: "quiet m \<Longrightarrow> quiet (steps ms) \<Longrightarrow> quiet (steps (m # ms))"
  by (simp add: quiet_andthen)

lemma quiet_if: "(b \<Longrightarrow> quiet m) \<Longrightarrow> (\<not> b \<Longrightarrow> quiet n) \<Longrightarrow> quiet (if b then m else n)"
  by simp

lemma quiet_attr_ok: "quiet (attr_ok x)"
  by (cases x) (simp_all add: attr_ok_def quiet_ret quiet_raise)

lemma quiet_response_json: "quiet (response_json r)"
  by (cases "json_body r") (simp_all add: response_json_def quiet_ret quiet_raise)

lemmas quiet_intros =
  quiet_ret quiet_raise quiet_lift quiet_index_event quiet_andthen quiet_steps_nil
  quiet_steps_cons quiet_if quiet_attr_ok quiet_response_json

lemma quiet_http_error_msg: "quiet (http_error_msg head r)"
  unfolding http_error_msg_def by (intro quiet_intros)

lemma quiet_print_zone_object: "quiet (print_zone_object zone)"
  unfolding print_zone_object_def by (intro quiet_intros quiet_effect) simp_all

lemma andthen_quiet:
  assumes "\<And>x. quiet (f x)"
  shows "http (snd (andthen m f w)) = http (snd (m w))"
proof (cases "fst (m w)")
  case (Inl e)
  then show ?thesis by (simp add: andthen_Inl)
next
  case (Inr x)
  then show ?thesis using quietD [OF assms, of x "snd (m w)"] by (simp add: andthen_Inr)
qed

lemma http_try_send: "http (snd (try_send c module req w)) = http w @ [req]"
  by (simp add: run_simps split: outcome.splits)

lemma http_after_calm:
  assumes "calm m" and "\<And>x w'. http w' = http w \<Longrightarrow> http (snd (f x w')) = http w @ rs"
  shows "http (snd (andthen m f w)) = http w @ rs"
proof -
  obtain x w' where "m w = (Inr x, w')" and "http w' = http w"
    using calmD [OF assms(1)] by blast
  then show ?thesis using assms(2) by (simp add: andthen_def)
qed

lemma get_zone_object_sends:
  "http (snd (get_zone_object render c zone_id w)) = http w @ [lookup_request render c zone_id]"
  unfolding get_zone_object_def Let_def lookup_request_def
  apply (rule http_after_calm)
   apply (rule calm_report)
    apply simp
   apply simp
  apply (subst andthen_quiet)
   apply (intro quiet_intros quiet_effect quiet_http_error_msg quiet_print_zone_object)
         apply simp_all
  apply (simp add: http_try_send)
  done

lemma get_zone_object_raises:
  assumes "session c (http w) (lookup_request render c zone_id) = Raises e"
  shows "fst (get_zone_object render c zone_id w) = Inl AttributeError"
  using assms by (simp add: get_zone_object_def lookup_request_def run_simps)

lemma get_zone_object_found:
  assumes "session c (http w) (lookup_request render c zone_id) = Responds r"
    and "ok r" and "json_body r = Some (PDict zone)"
  shows "fst (get_zone_object render c zone_id w) = Inr (PDict zone)"
  using assms
  by (simp add: get_zone_object_def lookup_request_def print_zone_object_def run_simps py_get_def)

lemma get_zone_object_not_found:
  assumes "session c (http w) (lookup_request render c zone_id) = Responds r" and "\<not> ok r"
  shows "fst (get_zone_object render c zone_id w) = Inr PNone
       \<or> (\<exists>e. fst (get_zone_object render c zone_id w) = Inl e)"
  using assms
  by (simp add: get_zone_object_def lookup_request_def http_error_msg_def run_simps
      split: option.splits sum.splits)

lemma get_zone_object_returns:
  assumes "session c (http w) (lookup_request render c zone_id) = Responds r"
    and "json_body r = Some (PDict body)"
  shows "\<exists>v. fst (get_zone_object render c zone_id w) = Inr v"
  using assms
  by (simp add: get_zone_object_def lookup_request_def http_error_msg_def print_zone_object_def
      run_simps py_get_def)

lemma get_zone_object_sends_pair:
  "get_zone_object render c zone_id w = (x, w') \<Longrightarrow>
   http w' = http w @ [lookup_request render c zone_id]"
  using get_zone_object_sends [of render c zone_id w] by simp

lemma rename_zone_raises:
  assumes "map_of zone ''type'' = Some ty" and "map_of zone ''id'' = Some zid"
    and "session c (http w) (rename_request render c zone new) = Raises e"
  shows "fst (rename_zone render c (PDict zone) old new w) = Inl AttributeError
       \<and> http (snd (rename_zone render c (PDict zone) old new w)) =
           http w @ [rename_request render c zone new]"
  using assms by (simp add: rename_zone_def rename_request_def zone_field_def run_simps py_get_def)

lemma rename_zone_refused:
  assumes "map_of zone ''type'' = Some ty" and "map_of zone ''id'' = Some zid"
    and "session c (http w) (rename_request render c zone new) = Responds r" and "\<not> ok r"
  shows "http (snd (rename_zone render c (PDict zone) old new w)) =
           http w @ [rename_request render c zone new]"
  using assms
  by (simp add: rename_zone_def rename_request_def zone_field_def run_simps py_get_def
      http_error_msg_def split: option.splits sum.splits)

lemma rename_zone_refused_returns:
  assumes "map_of zone ''type'' = Some ty" and "map_of zone ''id'' = Some zid"
    and "session c (http w) (rename_request render c zone new) = Responds r" and "\<not> ok r"
    and "json_body r = Some (PDict body)"
  shows "fst (rename_zone render c (PDict zone) old new w) = Inr ()"
  using assms
  by (simp add: rename_zone_def rename_request_def zone_field_def run_simps py_get_def
      http_error_msg_def)

lemma rename_zone_accepted:
  assumes "map_of zone ''type'' = Some ty" and "map_of zone ''id'' = Some zid"
    and "session c (http w) (rename_request render c zone new) = Responds r" and "ok r"
  shows "http (snd (rename_zone render c (PDict zone) old new w)) =
           http w @ [rename_request render c zone new, lookup_request render c zid]"
  using assms
  by (auto simp add: rename_zone_def rename_request_def zone_field_def run_simps py_get_def
      split: prod.splits sum.splits dest!: get_zone_object_sends_pair)

lemma rename_zone_accepted_returns:
  assumes "map_of zone ''type'' = Some ty" and "map_of zone ''id'' = Some zid"
    and "session c (http w) (rename_request render c zone new) = Responds r" and "ok r"
    and "session c (http w @ [rename_request render c zone new]) (lookup_request render c zid) =
           Responds r'"
    and "json_body r' = Some (PDict body)"
  shows "fst (rename_zone render c (PDict zone) old new w) = Inr ()"
proof -
  have nr: "\<And>(w' :: world) e w''. http w' = http w @ [rename_request render c zone new] \<Longrightarrow>
          (get_zone_object render c zid w' = (Inl e, w'')) = False"
  proof -
    fix w' :: world and e w''
    assume "http w' = http w @ [rename_request render c zone new]"
    then have "\<exists>v. fst (get_zone_object render c zid w') = Inr v"
      using assms(5,6) get_zone_object_returns [of c w' render zid r' body] by simp
    then show "(get_zone_object render c zid w' = (Inl e, w'')) = False"
      by auto
  qed
  show ?thesis
    using assms(1-4)
    by (auto simp add: rename_zone_def rename_request_def zone_field_def run_simps py_get_def nr
        split: prod.splits sum.splits)
qed

lemma andthen_lift_Inr: "andthen (lift (Inr x)) f = f x"
  by (rule ext) (simp add: andthen_def lift_def)

lemma modify_zone_execute_found:
  assumes "py_truthy zone_id"
    and "fst (get_zone_object render c zone_id w) = Inr (PDict zone)"
    and "map_of zone ''name'' = Some name"
  shows "modify_zone_execute render c
           [(''id'', \<lparr>opt_value = zone_id, opt_required = True, opt_help = hlp\<rparr>)] w =
         andthen (rename_zone render c (PDict zone) name (PStr (fmt render name @ '' TEMP_STRING'')))
           (\<lambda>_. rename_zone render c (PDict zone) (PStr (fmt render name @ '' TEMP_STRING'')) name)
           (snd (get_zone_object render c zone_id w))"
proof -
  have "zone \<noteq> []" using assms(3) by auto
  then show ?thesis
    using assms(1,3)
    by (simp add: modify_zone_execute_def option_value_def andthen_lift_Inr Let_def
        andthen_Inr [of "get_zone_object render c zone_id" w "PDict zone", OF assms(2)])
qed

lemma modify_zone_execute_not_found:
  assumes "py_truthy zone_id"
    and "fst (get_zone_object render c zone_id w) = Inr PNone
       \<or> (\<exists>e. fst (get_zone_object render c zone_id w) = Inl e)"
  shows "snd (modify_zone_execute render c
           [(''id'', \<lparr>opt_value = zone_id, opt_required = True, opt_help = hlp\<rparr>)] w) =
         snd (get_zone_object render c zone_id w)"
  using assms(2)
proof
  assume a: "fst (get_zone_object render c zone_id w) = Inr PNone"
  show ?thesis
    using assms(1)
    by (simp add: modify_zone_execute_def option_value_def andthen_lift_Inr
        andthen_Inr [of "get_zone_object render c zone_id" w PNone, OF a] ret_def)
next
  assume "\<exists>e. fst (get_zone_object render c zone_id w) = Inl e"
  then obtain e where a: "fst (get_zone_object render c zone_id w) = Inl e" ..
  show ?thesis
    using assms(1)
    by (simp add: modify_zone_execute_def option_value_def andthen_lift_Inr
        andthen_Inl [of "get_zone_object render c zone_id" w e, OF a])
qed

lemma rename_zone_trace:
  assumes "map_of zone ''type'' = Some ty" and "map_of zone ''id'' = Some zid"
  shows "\<exists>rest. http (snd (rename_zone render c (PDict zone) old new w)) =
                  http w @ rename_request render c zone new # rest
               \<and> (rest = [] \<or> rest = [lookup_request render c zid])"
proof (cases "session c (http w) (rename_request render c zone new)")
  case (Raises e)
  then show ?thesis using rename_zone_raises [OF assms] by simp
next
  case (Responds r)
  then show ?thesis
    using rename_zone_refused [OF assms Responds] rename_zone_accepted [OF assms Responds]
    by (cases "ok r") simp_all
qed

text \<open>
  The requests of \<open>execute\<close> of modify_zone with a value for \<open>id\<close>, where the session
  answers. When the lookup of the zone is answered with an ok response whose body is a
  zone object named \<open>name\<close>, with a type and an id, the requests sent are the lookup, the
  PUT that sets the name to \<open>name TEMP_STRING\<close>, and the PUT that sets it back to \<open>name\<close>,
  in that order. The second PUT is sent when the first was accepted and the zone was
  fetched again after it, and when the first was refused with an error status and an
  Okta error object as its body. After the second PUT there is at most the fetch that
  follows an accepted rename, so no other PUT is sent. When the lookup raises or is
  answered with a status that is not ok, the lookup is the only request: no PUT is sent.
\<close>

lemma modify_zone_requests:
  assumes "py_truthy zone_id"
    and "mo = [(''id'', \<lparr>opt_value = zone_id, opt_required = True, opt_help = hlp\<rparr>)]"
    and "g0 = lookup_request render c zone_id"
    and "p1 = rename_request render c zone (PStr (fmt render name @ '' TEMP_STRING''))"
    and "p2 = rename_request render c zone name"
    and "g1 = lookup_request render c zid"
  shows
    "(session c (http w) g0 = Responds r0 \<and> ok r0 \<and> json_body r0 = Some (PDict zone)
      \<and> map_of zone ''name'' = Some name \<and> map_of zone ''type'' = Some ty
      \<and> map_of zone ''id'' = Some zid
      \<and> session c (http w @ [g0]) p1 = Responds r1
      \<and> (if ok r1
         then \<exists>r2 body. session c (http w @ [g0, p1]) g1 = Responds r2
                       \<and> json_body r2 = Some (PDict body)
         else \<exists>body. json_body r1 = Some (PDict body))
      \<longrightarrow> (\<exists>rest. http (snd (modify_zone_execute render c mo w)) =
                    http w @ [g0, p1] @ (if ok r1 then [g1] else []) @ p2 # rest
                 \<and> (rest = [] \<or> rest = [g1])))
   \<and> ((\<exists>e. session c (http w) g0 = Raises e)
        \<or> (\<exists>r. session c (http w) g0 = Responds r \<and> \<not> ok r)
      \<longrightarrow> http (snd (modify_zone_execute render c mo w)) = http w @ [g0])"
proof (intro conjI impI)
  assume "(\<exists>e. session c (http w) g0 = Raises e)
        \<or> (\<exists>r. session c (http w) g0 = Responds r \<and> \<not> ok r)"
  then have "fst (get_zone_object render c zone_id w) = Inr PNone
           \<or> (\<exists>e. fst (get_zone_object render c zone_id w) = Inl e)"
    using get_zone_object_raises [of c w render zone_id]
      get_zone_object_not_found [of c w render zone_id]
    unfolding assms(3) by blast
  from modify_zone_execute_not_found [OF assms(1) this]
  show "http (snd (modify_zone_execute render c mo w)) = http w @ [g0]"
    unfolding assms(2,3) by (simp add: get_zone_object_sends)
next
  assume h: "session c (http w) g0 = Responds r0 \<and> ok r0 \<and> json_body r0 = Some (PDict zone)
      \<and> map_of zone ''name'' = Some name \<and> map_of zone ''type'' = Some ty
      \<and> map_of zone ''id'' = Some zid
      \<and> session c (http w @ [g0]) p1 = Responds r1
      \<and> (if ok r1
         then \<exists>r2 body. session c (http w @ [g0, p1]) g1 = Responds r2
                       \<and> json_body r2 = Some (PDict body)
         else \<exists>body. json_body r1 = Some (PDict body))"
  let ?new = "PStr (fmt render name @ '' TEMP_STRING'')"
  let ?w1 = "snd (get_zone_object render c zone_id w)"
  let ?w2 = "snd (rename_zone render c (PDict zone) name ?new ?w1)"
  have ty: "map_of zone ''type'' = Some ty" and zid: "map_of zone ''id'' = Some zid"
    and nm: "map_of zone ''name'' = Some name"
    using h by simp_all
  have found: "fst (get_zone_object render c zone_id w) = Inr (PDict zone)"
    using h get_zone_object_found [of c w render zone_id r0 zone] unfolding assms(3) by simp
  have w1: "http ?w1 = http w @ [g0]"
    unfolding assms(3) by (rule get_zone_object_sends)
  have s1: "session c (http ?w1) (rename_request render c zone ?new) = Responds r1"
    using h unfolding w1 assms(4) by simp
  have first: "fst (rename_zone render c (PDict zone) name ?new ?w1) = Inr ()
             \<and> http ?w2 = http w @ [g0, p1] @ (if ok r1 then [g1] else [])"
  proof (cases "ok r1")
    case True
    with h obtain r2 body where "session c (http w @ [g0, p1]) g1 = Responds r2"
      and "json_body r2 = Some (PDict body)"
      by auto
    then show ?thesis
      using rename_zone_accepted_returns [OF ty zid s1 True, where r' = r2 and body = body and old = name]
        rename_zone_accepted [OF ty zid s1 True, where old = name] True
      unfolding w1 assms(4,6) by simp
  next
    case False
    with h obtain body where "json_body r1 = Some (PDict body)"
      by auto
    then show ?thesis
      using rename_zone_refused_returns [OF ty zid s1 False, where body = body and old = name]
        rename_zone_refused [OF ty zid s1 False, where old = name] False
      unfolding w1 assms(4) by simp
  qed
  have run: "modify_zone_execute render c mo w =
               rename_zone render c (PDict zone) ?new name ?w2"
    unfolding assms(2) modify_zone_execute_found [OF assms(1) found nm]
    using first by (simp add: andthen_Inr)
  from rename_zone_trace [OF ty zid, of render c ?new name ?w2]
  show "\<exists>rest. http (snd (modify_zone_execute render c mo w)) =
                 http w @ [g0, p1] @ (if ok r1 then [g1] else []) @ p2 # rest
              \<and> (rest = [] \<or> rest = [g1])"
    using first assms(5,6) unfolding run by auto
qed

text \<open>Lemma \<open>modify_zone_requests\<close> for zone \<open>z1\<close> named \<open>Zone A\<close>, at a tenant
  that refuses the first PUT with status 500, and at a tenant that refuses the lookup.\<close>

lemma modify_zone_requests_example:
  "(\<exists>rest. http (snd (modify_zone_execute (\<lambda>v. []) (tenant first_rename_fails)
                         (id_option (PStr ''z1'')) empty_world)) =
             [lookup_request (\<lambda>v. []) (tenant first_rename_fails) (PStr ''z1''),
              rename_request (\<lambda>v. []) (tenant first_rename_fails) zone_a
                (PStr ''Zone A TEMP_STRING''),
              rename_request (\<lambda>v. []) (tenant first_rename_fails) zone_a (PStr ''Zone A'')]
             @ rest
           \<and> (rest = [] \<or> rest = [lookup_request (\<lambda>v. []) (tenant first_rename_fails)
                                     (PStr ''z1'')]))
   \<and> http (snd (modify_zone_execute (\<lambda>v. []) (tenant (\<lambda>hist req. Responds error_response))
                  (id_option (PStr ''z1'')) empty_world)) =
       [lookup_request (\<lambda>v. []) (tenant (\<lambda>hist req. Responds error_response)) (PStr ''z1'')]"
proof -
  have t: "py_truthy (PStr ''z1'')" by simp
  have e: "http empty_world = []" by (simp add: empty_world_def)
  let ?c = "tenant first_rename_fails"
  let ?g0 = "lookup_request (\<lambda>v. []) ?c (PStr ''z1'')"
  let ?p1 = "rename_request (\<lambda>v. []) ?c zone_a (PStr ''Zone A TEMP_STRING'')"
  have h1: "session ?c [] ?g0 = Responds zone_response"
    by (simp add: tenant_def first_rename_fails_def lookup_request_def get_request_def)
  have h2: "ok zone_response \<and> json_body zone_response = Some (PDict zone_a)"
    by (simp add: zone_response_def)
  have h3: "map_of zone_a ''name'' = Some (PStr ''Zone A'')
          \<and> map_of zone_a ''type'' = Some (PStr ''IP'')
          \<and> map_of zone_a ''id'' = Some (PStr ''z1'')"
    by (simp add: zone_a_def)
  have h4: "session ?c ([] @ [?g0]) ?p1 = Responds error_response"
    by (simp add: tenant_def first_rename_fails_def lookup_request_def get_request_def
        rename_request_def put_request_def)
  have h5: "\<not> ok error_response
          \<and> (\<exists>body. json_body error_response = Some (PDict body))"
    by (simp add: error_response_def)
  have f: "fmt (\<lambda>v. []) (PStr ''Zone A'') @ '' TEMP_STRING'' = ''Zone A TEMP_STRING''"
    by simp
  let ?d = "tenant (\<lambda>hist req. Responds error_response)"
  have k: "session ?d [] (lookup_request (\<lambda>v. []) ?d (PStr ''z1'')) = Responds error_response"
    by (simp add: tenant_def)
  from modify_zone_requests [OF t refl refl refl refl refl,
      where c = ?c and render = "\<lambda>v. []" and w = empty_world and zone = zone_a
        and name = "PStr ''Zone A''" and ty = "PStr ''IP''" and zid = "PStr ''z1''"
        and ?r0.0 = zone_response and ?r1.0 = error_response
        and hlp = "''The unique ID for the network zone''"]
    modify_zone_requests [OF t refl refl refl refl refl,
      where c = ?d and render = "\<lambda>v. []" and w = empty_world
        and hlp = "''The unique ID for the network zone''"]
    h1 h2 h3 h4 h5 k
  show ?thesis
    unfolding e f id_option_def by (simp del: fmt.simps)
qed

text \<open>When the session raises on the first PUT, \<open>rename_zone\<close> leaves with the
  \<open>AttributeError\<close> of \<open>response.ok\<close>, and \<open>execute\<close> with it: the second call of
  \<open>rename_zone\<close> is not reached.\<close>

lemma modify_zone_execute_first_put_raises:
  assumes "py_truthy zone_id"
    and "session c (http w) (lookup_request render c zone_id) = Responds r0"
    and "ok r0" and "json_body r0 = Some (PDict zone)"
    and "map_of zone ''name'' = Some name" and "map_of zone ''type'' = Some ty"
    and "map_of zone ''id'' = Some zid"
    and "session c (http w @ [lookup_request render c zone_id])
           (rename_request render c zone (PStr (fmt render name @ '' TEMP_STRING''))) = Raises e"
  shows "fst (modify_zone_execute render c
                [(''id'', \<lparr>opt_value = zone_id, opt_required = True, opt_help = hlp\<rparr>)] w) =
           Inl AttributeError
       \<and> http (snd (modify_zone_execute render c
                [(''id'', \<lparr>opt_value = zone_id, opt_required = True, opt_help = hlp\<rparr>)] w)) =
           http w @ [lookup_request render c zone_id,
                     rename_request render c zone (PStr (fmt render name @ '' TEMP_STRING''))]"
proof -
  let ?new = "PStr (fmt render name @ '' TEMP_STRING'')"
  let ?w1 = "snd (get_zone_object render c zone_id w)"
  have found: "fst (get_zone_object render c zone_id w) = Inr (PDict zone)"
    using get_zone_object_found [OF assms(2,3,4)] .
  have w1: "http ?w1 = http w @ [lookup_request render c zone_id]"
    by (rule get_zone_object_sends)
  have s1: "session c (http ?w1) (rename_request render c zone ?new) = Raises e"
    using assms(8) unfolding w1 .
  from rename_zone_raises [OF assms(6,7) s1, of name]
  have r: "fst (rename_zone render c (PDict zone) name ?new ?w1) = Inl AttributeError"
    and h: "http (snd (rename_zone render c (PDict zone) name ?new ?w1)) =
              http w @ [lookup_request render c zone_id, rename_request render c zone ?new]"
    unfolding w1 by simp_all
  show ?thesis
    unfolding modify_zone_execute_found [OF assms(1) found assms(5)]
    using h
    by (simp add: andthen_Inl [of "rename_zone render c (PDict zone) name ?new" ?w1
          AttributeError, OF r])
qed

text \<open>
  Claim C4 fails on the code. The zone \<open>z1\<close> is named \<open>Zone A\<close>, the lookup finds it, and
  the session raises on the PUT that renames it to \<open>Zone A TEMP_STRING\<close> (a timeout of the
  connection). \<open>rename_zone\<close> catches the exception, sets \<open>response = None\<close> and reads
  \<open>response.ok\<close>: \<open>execute\<close> ends with that \<open>AttributeError\<close> after the lookup and one PUT,
  and the PUT that renames the zone back to \<open>Zone A\<close> is not sent. The \<open>except\<close> block
  shows that the code means to go on after such a failure, and the comment in \<open>execute\<close>
  that the name is to be changed back; the defect is the one of claim C3.
\<close>

theorem modify_zone_no_revert_after_exception:
  "fst (modify_zone_execute (\<lambda>v. []) (tenant every_put_raises) (id_option (PStr ''z1''))
          empty_world) = Inl AttributeError
   \<and> http (snd (modify_zone_execute (\<lambda>v. []) (tenant every_put_raises)
                  (id_option (PStr ''z1'')) empty_world)) =
       [lookup_request (\<lambda>v. []) (tenant every_put_raises) (PStr ''z1''),
        rename_request (\<lambda>v. []) (tenant every_put_raises) zone_a (PStr ''Zone A TEMP_STRING'')]"
proof -
  let ?c = "tenant every_put_raises"
  have t: "py_truthy (PStr ''z1'')" by simp
  have e: "http empty_world = []" by (simp add: empty_world_def)
  have h1: "session ?c (http empty_world) (lookup_request (\<lambda>v. []) ?c (PStr ''z1'')) =
              Responds zone_response"
    by (simp add: tenant_def every_put_raises_def lookup_request_def get_request_def)
  have h2: "ok zone_response" "json_body zone_response = Some (PDict zone_a)"
    by (simp_all add: zone_response_def)
  have h3: "map_of zone_a ''name'' = Some (PStr ''Zone A'')"
    "map_of zone_a ''type'' = Some (PStr ''IP'')" "map_of zone_a ''id'' = Some (PStr ''z1'')"
    by (simp_all add: zone_a_def)
  have h4: "session ?c (http empty_world @ [lookup_request (\<lambda>v. []) ?c (PStr ''z1'')])
              (rename_request (\<lambda>v. []) ?c zone_a
                 (PStr (fmt (\<lambda>v. []) (PStr ''Zone A'') @ '' TEMP_STRING''))) =
              Raises ''ConnectTimeout''"
    by (simp add: tenant_def every_put_raises_def rename_request_def put_request_def)
  from modify_zone_execute_first_put_raises [OF t h1 h2 h3 h4,
      of "''The unique ID for the network zone''"]
  show ?thesis
    unfolding id_option_def e by simp
qed
end
